theory Spec2Isabelle
  imports Complex_Main
begin

section \<open>Basic types\<close>

text \<open>
  A shallow embedding of the SynergySphere backend: the Mongoose models
  (\<^verbatim>\<open>backend/model/Project.js\<close>, \<^verbatim>\<open>Task.js\<close>, \<^verbatim>\<open>Message.js\<close>, the Notification model)
  and the Express middleware and routes built on them.

  An \<^verbatim>\<open>ObjectId\<close> is a natural number; two ids are equal when their \<^verbatim>\<open>toString()\<close>
  are. A \<^verbatim>\<open>Date\<close> is a number of milliseconds; \<^verbatim>\<open>null\<close> is \<open>None\<close>. Every function that
  calls \<^verbatim>\<open>new Date()\<close> or \<^verbatim>\<open>Date.now()\<close> takes the current time as its argument \<open>now\<close>.
\<close>

type_synonym ObjectId = nat
type_synonym Date = int

text \<open>
  \<^verbatim>\<open>Array.prototype.find\<close> is \<^const>\<open>find\<close>. The element it returns is mutated in place by
  the callers; \<open>update_first\<close> rewrites that element (the first one that satisfies the test).
\<close>

fun update_first :: "('a \<Rightarrow> bool) \<Rightarrow> ('a \<Rightarrow> 'a) \<Rightarrow> 'a list \<Rightarrow> 'a list" where
  "update_first P f [] = []"
| "update_first P f (x # xs) = (if P x then f x # xs else x # update_first P f xs)"

section \<open>JavaScript numbers\<close>

text \<open>
  A JavaScript number is an IEEE 754 double. The finite doubles are rationals, and every
  arithmetic operation returns the double nearest to the exact result, ties to the even
  significand. \<open>to_double\<close> is that rounding for results below the overflow threshold (all
  numbers here are at most 100): the unit in the last place of \<open>x\<close> is
  \<open>2 ^ (e - 52)\<close> with \<open>e = \<lfloor>log\<^sub>2 \<bar>x\<bar>\<rfloor>\<close>, and never less than \<open>2 ^ (- 1074)\<close>.
  \<^verbatim>\<open>Math.round(x)\<close> is exact: \<open>\<lfloor>x + 1/2\<rfloor>\<close>.
\<close>

fun bit_length :: "nat \<Rightarrow> nat" where
  "bit_length n = (if n = 0 then 0 else Suc (bit_length (n div 2)))"

definition pow2 :: "int \<Rightarrow> rat" where
  "pow2 e = (if 0 \<le> e then 2 ^ nat e else 1 / 2 ^ nat (- e))"

definition binary_exponent :: "rat \<Rightarrow> int" where
  "binary_exponent x =
     (if 1 \<le> x then int (bit_length (nat \<lfloor>x\<rfloor>)) - 1
      else - int (bit_length (nat (\<lceil>1 / x\<rceil> - 1))))"

definition round_half_even :: "rat \<Rightarrow> int" where
  "round_half_even q =
     (let f = \<lfloor>q\<rfloor>; r = q - of_int f
      in if r < 1 / 2 then f
         else if 1 / 2 < r then f + 1
         else if even f then f else f + 1)"

definition to_double :: "rat \<Rightarrow> rat" where
  "to_double x =
     (if x = 0 then 0
      else let e = max (binary_exponent \<bar>x\<bar>) (- 1022);
               ulp = pow2 (e - 52)
           in sgn x * of_int (round_half_even (\<bar>x\<bar> / ulp)) * ulp)"

definition js_div :: "rat \<Rightarrow> rat \<Rightarrow> rat" where
  "js_div a b = to_double (a / b)"

definition js_mul :: "rat \<Rightarrow> rat \<Rightarrow> rat" where
  "js_mul a b = to_double (a * b)"

definition Math_round :: "rat \<Rightarrow> int" where
  "Math_round x = \<lfloor>x + 1 / 2\<rfloor>"

section \<open>The Project model\<close>

datatype member_role = RoleOwner | RoleAdmin | RoleMember | RoleViewer

record permissions =
  canCreateTasks :: bool
  canEditTasks :: bool
  canDeleteTasks :: bool
  canManageMembers :: bool
  canEditProject :: bool

record member =
  member_user :: ObjectId
  member_role :: member_role
  member_permissions :: permissions

record progress =
  totalTasks :: nat
  completedTasks :: nat
  percentage :: int

record statistics =
  totalMessages :: nat
  lastActivity :: Date

record project =
  project_id :: ObjectId
  project_owner :: ObjectId
  project_members :: "member list"
  project_progress :: progress
  project_statistics :: statistics

text \<open>
  The expression both \<^verbatim>\<open>projectSchema.pre('save')\<close> and \<^verbatim>\<open>updateProgress\<close> assign to
  \<^verbatim>\<open>progress.percentage\<close>:
  \<^verbatim>\<open>totalTasks > 0 ? Math.round((completedTasks / totalTasks) * 100) : 0\<close>.
\<close>

definition progress_percentage :: "progress \<Rightarrow> int" where
  "progress_percentage g =
     (if totalTasks g > 0
      then Math_round (js_mul (js_div (of_nat (completedTasks g)) (of_nat (totalTasks g))) 100)
      else 0)"

definition project_pre_save :: "project \<Rightarrow> project" where
  "project_pre_save p =
     p\<lparr>project_progress := (project_progress p)\<lparr>percentage := progress_percentage (project_progress p)\<rparr>\<rparr>"

text \<open>
  \<^verbatim>\<open>project.members.some(member => member.user.toString() === id)\<close> and
  \<^verbatim>\<open>project.members.find(m => m.user.toString() === id)\<close>, the two membership tests of the
  routes and middleware.
\<close>

definition isMember :: "ObjectId \<Rightarrow> project \<Rightarrow> bool" where
  "isMember userId p = list_ex (\<lambda>member. member_user member = userId) (project_members p)"

definition find_member :: "ObjectId \<Rightarrow> project \<Rightarrow> member option" where
  "find_member userId p = find (\<lambda>m. member_user m = userId) (project_members p)"

text \<open>
  The two access tests of the routes. \<open>not_owner_or_member\<close> is \<^verbatim>\<open>!isOwner && !isMember\<close>.
  \<open>lacks_permission\<close> is \<^verbatim>\<open>!isOwner && (!member || !member.permissions.p)\<close> for a permission
  \<^verbatim>\<open>p\<close> of the permission bag.
\<close>

definition not_owner_or_member :: "ObjectId \<Rightarrow> project \<Rightarrow> bool" where
  "not_owner_or_member userId project \<longleftrightarrow>
     project_owner project \<noteq> userId \<and> \<not> isMember userId project"

definition lacks_permission :: "(permissions \<Rightarrow> bool) \<Rightarrow> ObjectId \<Rightarrow> project \<Rightarrow> bool" where
  "lacks_permission p userId project \<longleftrightarrow>
     project_owner project \<noteq> userId \<and>
     (case find_member userId project of
        None \<Rightarrow> True
      | Some member \<Rightarrow> \<not> p (member_permissions member))"


section \<open>The Task model\<close>

datatype task_status = Todo | InProgress | InReview | Completed | Cancelled

datatype task_priority = Low | Medium | High | Urgent

datatype dependency_type = Blocks | BlockedBy | RelatesTo

record dependency =
  dependency_task :: ObjectId
  dependency_type :: dependency_type

record subtask =
  subtask_id :: ObjectId
  subtask_title :: string
  subtask_completed :: bool
  subtask_completedAt :: "Date option"

record comment =
  comment_id :: ObjectId
  comment_author :: ObjectId
  comment_content :: string
  comment_mentions :: "ObjectId list"
  comment_createdAt :: Date

datatype activity_type =
  Created | Updated | Assigned | StatusChanged | CommentAdded | AttachmentAdded | DueDateChanged

text \<open>
  An activity entry keeps its type, user and timestamp; its \<^verbatim>\<open>description\<close>, \<^verbatim>\<open>oldValue\<close> and
  \<^verbatim>\<open>newValue\<close> (free text and mixed values no code reads) are left out. Of a task, the fields
  are those a route or hook below reads or writes.
\<close>

record activity =
  activity_type :: activity_type
  activity_user :: ObjectId
  activity_timestamp :: Date

record task =
  task_id :: ObjectId
  task_title :: string
  task_description :: string
  task_project :: ObjectId
  task_assignee :: "ObjectId option"
  task_creator :: ObjectId
  task_status :: task_status
  task_priority :: task_priority
  task_dueDate :: "Date option"
  task_completedAt :: "Date option"
  task_actualHours :: "rat option"
  task_progress :: nat
  task_dependencies :: "dependency list"
  task_subtasks :: "subtask list"
  task_comments :: "comment list"
  task_watchers :: "ObjectId list"
  task_activity :: "activity list"

text \<open>
  \<^verbatim>\<open>taskSchema.pre('save')\<close>. The first argument is \<^verbatim>\<open>this.isModified('status')\<close>, Mongoose's
  change tracking: whether \<^verbatim>\<open>status\<close> differs from the value the document was loaded with.
  A \<^verbatim>\<open>Date\<close> object is truthy, so \<^verbatim>\<open>!this.completedAt\<close> holds exactly for \<^verbatim>\<open>null\<close>.
\<close>

definition task_pre_save :: "bool \<Rightarrow> Date \<Rightarrow> task \<Rightarrow> task" where
  "task_pre_save isModified_status now t =
     (if isModified_status then
        (if task_status t = Completed \<and> task_completedAt t = None
         then t\<lparr>task_completedAt := Some now\<rparr>
         else if task_status t \<noteq> Completed
         then t\<lparr>task_completedAt := None\<rparr>
         else t)
      else t)"

text \<open>
  The instance methods, as they change the document. Each ends with \<^verbatim>\<open>return this.save()\<close>
  (\<^verbatim>\<open>addActivity\<close> excepted, which returns \<^verbatim>\<open>this\<close>); the save is \<open>task_save\<close> below, applied by
  the route that calls the method. A new subdocument gets the \<^verbatim>\<open>_id\<close> Mongoose generates for
  it, an argument here.
\<close>

definition addActivity :: "activity_type \<Rightarrow> ObjectId \<Rightarrow> Date \<Rightarrow> task \<Rightarrow> task" where
  "addActivity type user now t =
     t\<lparr>task_activity := task_activity t @
         [\<lparr>activity_type = type, activity_user = user, activity_timestamp = now\<rparr>]\<rparr>"

definition addComment :: "ObjectId \<Rightarrow> ObjectId \<Rightarrow> string \<Rightarrow> ObjectId list \<Rightarrow> Date \<Rightarrow> task \<Rightarrow> task" where
  "addComment new_id authorId content mentions now t =
     t\<lparr>task_comments := task_comments t @
         [\<lparr>comment_id = new_id, comment_author = authorId, comment_content = content,
           comment_mentions = mentions, comment_createdAt = now\<rparr>]\<rparr>"

definition addSubtask :: "ObjectId \<Rightarrow> string \<Rightarrow> task \<Rightarrow> task" where
  "addSubtask new_id title t =
     t\<lparr>task_subtasks := task_subtasks t @
         [\<lparr>subtask_id = new_id, subtask_title = title, subtask_completed = False,
           subtask_completedAt = None\<rparr>]\<rparr>"

text \<open>\<^verbatim>\<open>toggleSubtask\<close>: \<open>None\<close> is the thrown \<^verbatim>\<open>Error('Subtask not found')\<close>.\<close>

definition toggleSubtask :: "ObjectId \<Rightarrow> Date \<Rightarrow> task \<Rightarrow> task option" where
  "toggleSubtask subtaskId now t =
     (case find (\<lambda>s. subtask_id s = subtaskId) (task_subtasks t) of
        None \<Rightarrow> None
      | Some subtask \<Rightarrow>
          Some (t\<lparr>task_subtasks :=
                  update_first (\<lambda>s. subtask_id s = subtaskId)
                    (\<lambda>s. s\<lparr>subtask_completed := \<not> subtask_completed s,
                            subtask_completedAt := (if \<not> subtask_completed s then Some now else None)\<rparr>)
                    (task_subtasks t)\<rparr>))"

definition updateStatus :: "task_status \<Rightarrow> ObjectId \<Rightarrow> Date \<Rightarrow> task \<Rightarrow> task" where
  "updateStatus newStatus userId now t =
     addActivity StatusChanged userId now (t\<lparr>task_status := newStatus\<rparr>)"

definition assignTo :: "ObjectId \<Rightarrow> ObjectId \<Rightarrow> Date \<Rightarrow> task \<Rightarrow> task" where
  "assignTo assigneeId assignedBy now t =
     (let t1 = addActivity Assigned assignedBy now (t\<lparr>task_assignee := Some assigneeId\<rparr>)
      in if assigneeId \<notin> set (task_watchers t1)
         then t1\<lparr>task_watchers := task_watchers t1 @ [assigneeId]\<rparr>
         else t1)"

definition addWatcher :: "ObjectId \<Rightarrow> task \<Rightarrow> task" where
  "addWatcher userId t =
     (if userId \<notin> set (task_watchers t)
      then t\<lparr>task_watchers := task_watchers t @ [userId]\<rparr>
      else t)"

definition removeWatcher :: "ObjectId \<Rightarrow> task \<Rightarrow> task" where
  "removeWatcher userId t =
     t\<lparr>task_watchers := filter (\<lambda>watcher. watcher \<noteq> userId) (task_watchers t)\<rparr>"

section \<open>The Message model\<close>

record reaction =
  reaction_emoji :: string
  reaction_users :: "ObjectId list"
  reaction_count :: nat

record read_receipt =
  read_user :: ObjectId
  read_readAt :: Date

record edit =
  edit_content :: string
  edit_editedAt :: Date

record message =
  message_id :: ObjectId
  message_content :: string
  message_project :: ObjectId
  message_author :: ObjectId
  message_parentMessage :: "ObjectId option"
  message_mentions :: "ObjectId list"
  message_reactions :: "reaction list"
  message_isEdited :: bool
  message_editedAt :: "Date option"
  message_editHistory :: "edit list"
  message_isDeleted :: bool
  message_deletedAt :: "Date option"
  message_readBy :: "read_receipt list"
  message_isPinned :: bool
  message_pinnedAt :: "Date option"
  message_pinnedBy :: "ObjectId option"
  message_createdAt :: Date

text \<open>
  The instance methods, as they change the document; the \<^verbatim>\<open>this.save()\<close> they end with is
  \<open>message_save\<close> below, applied by the route. \<^verbatim>\<open>users.includes(userId)\<close> on a Mongoose array
  of ObjectIds compares ids by value.
\<close>

definition addReaction :: "string \<Rightarrow> ObjectId \<Rightarrow> message \<Rightarrow> message" where
  "addReaction emoji userId m =
     (case find (\<lambda>r. reaction_emoji r = emoji) (message_reactions m) of
        Some existingReaction \<Rightarrow>
          if userId \<in> set (reaction_users existingReaction) then m
          else m\<lparr>message_reactions :=
                   update_first (\<lambda>r. reaction_emoji r = emoji)
                     (\<lambda>r. r\<lparr>reaction_users := reaction_users r @ [userId],
                             reaction_count := reaction_count r + 1\<rparr>)
                     (message_reactions m)\<rparr>
      | None \<Rightarrow>
          m\<lparr>message_reactions := message_reactions m @
               [\<lparr>reaction_emoji = emoji, reaction_users = [userId], reaction_count = 1\<rparr>]\<rparr>)"

definition removeReaction :: "string \<Rightarrow> ObjectId \<Rightarrow> message \<Rightarrow> message" where
  "removeReaction emoji userId m =
     (case find (\<lambda>r. reaction_emoji r = emoji) (message_reactions m) of
        Some reaction \<Rightarrow>
          (let users = filter (\<lambda>user. user \<noteq> userId) (reaction_users reaction);
               reactions = update_first (\<lambda>r. reaction_emoji r = emoji)
                             (\<lambda>r. r\<lparr>reaction_users := users, reaction_count := length users\<rparr>)
                             (message_reactions m)
           in if length users = 0
              then m\<lparr>message_reactions := filter (\<lambda>r. reaction_emoji r \<noteq> emoji) reactions\<rparr>
              else m\<lparr>message_reactions := reactions\<rparr>)
      | None \<Rightarrow> m)"

definition editContent :: "string \<Rightarrow> Date \<Rightarrow> message \<Rightarrow> message" where
  "editContent newContent now m =
     m\<lparr>message_editHistory := message_editHistory m @
          [\<lparr>edit_content = message_content m, edit_editedAt = now\<rparr>],
       message_content := newContent,
       message_isEdited := True,
       message_editedAt := Some now\<rparr>"

definition pin :: "ObjectId \<Rightarrow> Date \<Rightarrow> message \<Rightarrow> message" where
  "pin userId now m =
     m\<lparr>message_isPinned := True, message_pinnedAt := Some now, message_pinnedBy := Some userId\<rparr>"

definition unpin :: "message \<Rightarrow> message" where
  "unpin m = m\<lparr>message_isPinned := False, message_pinnedAt := None, message_pinnedBy := None\<rparr>"

definition softDelete :: "Date \<Rightarrow> message \<Rightarrow> message" where
  "softDelete now m = m\<lparr>message_isDeleted := True, message_deletedAt := Some now\<rparr>"

text \<open>
  The state the reaction methods keep: in every entry \<^verbatim>\<open>count\<close> is the number of \<^verbatim>\<open>users\<close>, no
  user is listed twice, and no entry is left without users.
\<close>

definition reaction_ok :: "reaction \<Rightarrow> bool" where
  "reaction_ok r \<longleftrightarrow>
     reaction_count r = length (reaction_users r) \<and> distinct (reaction_users r) \<and> reaction_users r \<noteq> []"

definition reactions_ok :: "message \<Rightarrow> bool" where
  "reactions_ok m \<longleftrightarrow> list_all reaction_ok (message_reactions m)"

section \<open>The Notification model\<close>

datatype notification_type =
  TaskAssigned | TaskUpdated | TaskCompleted | TaskDueSoon | TaskOverdue | TaskComment
  | ProjectInvitation | ProjectUpdated | MemberAdded | MemberRemoved | MessageMention
  | DeadlineReminder | SystemAnnouncement

record channels =
  channel_inApp :: bool
  channel_email :: bool
  channel_push :: bool

text \<open>
  Of a notification, the title, message text and action link (strings built from user and task
  names) are left out.
\<close>

record notification =
  notification_id :: ObjectId
  notification_recipient :: ObjectId
  notification_sender :: "ObjectId option"
  notification_type :: notification_type
  notification_project :: "ObjectId option"
  notification_task :: "ObjectId option"
  notification_message :: "ObjectId option"
  notification_isRead :: bool
  notification_readAt :: "Date option"
  notification_priority :: task_priority
  notification_expiresAt :: "Date option"
  notification_channels :: channels

text \<open>\<^verbatim>\<open>notificationSchema.pre('save')\<close>: an expiry of 30 days when none is set.\<close>

definition notification_pre_save :: "Date \<Rightarrow> notification \<Rightarrow> notification" where
  "notification_pre_save now n =
     (if notification_expiresAt n = None
      then n\<lparr>notification_expiresAt := Some (now + 30 * 24 * 60 * 60 * 1000)\<rparr>
      else n)"

text \<open>
  \<^verbatim>\<open>markAsRead\<close> and \<^verbatim>\<open>markAsUnread\<close> return the document and whether \<^verbatim>\<open>this.save()\<close> was
  called: \<open>True\<close> for \<^verbatim>\<open>return this.save()\<close> (the pre-save hook has run), \<open>False\<close> for
  \<^verbatim>\<open>return Promise.resolve(this)\<close>.
\<close>

definition markAsRead :: "Date \<Rightarrow> notification \<Rightarrow> notification \<times> bool" where
  "markAsRead now n =
     (if \<not> notification_isRead n
      then (notification_pre_save now (n\<lparr>notification_isRead := True, notification_readAt := Some now\<rparr>), True)
      else (n, False))"

definition markAsUnread :: "Date \<Rightarrow> notification \<Rightarrow> notification \<times> bool" where
  "markAsUnread now n =
     (if notification_isRead n
      then (notification_pre_save now (n\<lparr>notification_isRead := False, notification_readAt := None\<rparr>), True)
      else (n, False))"

section \<open>Users\<close>

text \<open>
  Modelled from the spec: the User model (\<^verbatim>\<open>models/User\<close>) is required by the middleware and
  the routes and is not among the sources. A user is the record of the fields they read and
  write: the id, the credentials, \<^verbatim>\<open>isActive\<close>, the reset and verification tokens, and the
  notification preferences \<^verbatim>\<open>preferences.notifications.email\<close> and \<^verbatim>\<open>.push\<close>.
\<close>

record user =
  user_id :: ObjectId
  user_email :: string
  user_password :: string
  user_isActive :: bool
  user_lastLogin :: "Date option"
  user_resetPasswordToken :: "string option"
  user_resetPasswordExpire :: "Date option"
  user_emailVerificationToken :: "string option"
  user_emailVerified :: bool
  user_emailVerifiedAt :: "Date option"
  user_notifications_email :: bool
  user_notifications_push :: bool

section \<open>The document store\<close>

text \<open>
  The collections, each a list of documents in insertion order. \<open>findById\<close> is
  \<^verbatim>\<open>Model.findById\<close>; \<open>write_doc\<close> is the write a \<^verbatim>\<open>save()\<close> issues (an insert for a new
  document, a replacement of the stored one otherwise); \<open>delete_doc\<close> is \<^verbatim>\<open>deleteOne\<close>.
  One request runs alone: the interleaving of concurrent requests is not modelled.
\<close>

record db =
  db_users :: "user list"
  db_projects :: "project list"
  db_tasks :: "task list"
  db_messages :: "message list"
  db_notifications :: "notification list"

definition findById :: "('a \<Rightarrow> ObjectId) \<Rightarrow> ObjectId \<Rightarrow> 'a list \<Rightarrow> 'a option" where
  "findById key i docs = find (\<lambda>d. key d = i) docs"

definition write_doc :: "('a \<Rightarrow> ObjectId) \<Rightarrow> 'a \<Rightarrow> 'a list \<Rightarrow> 'a list" where
  "write_doc key doc docs =
     (if findById key (key doc) docs = None then docs @ [doc]
      else update_first (\<lambda>d. key d = key doc) (\<lambda>d. doc) docs)"

fun delete_doc :: "('a \<Rightarrow> ObjectId) \<Rightarrow> ObjectId \<Rightarrow> 'a list \<Rightarrow> 'a list" where
  "delete_doc key i [] = []"
| "delete_doc key i (d # docs) = (if key d = i then docs else d # delete_doc key i docs)"

subsection \<open>Saving a project\<close>

definition project_save :: "project \<Rightarrow> db \<Rightarrow> db" where
  "project_save p db = db\<lparr>db_projects := write_doc project_id (project_pre_save p) (db_projects db)\<rparr>"

text \<open>\<^verbatim>\<open>Task.find({ project: id })\<close>: the tasks that reference a project.\<close>

definition tasks_of_project :: "ObjectId \<Rightarrow> db \<Rightarrow> task list" where
  "tasks_of_project pid db = filter (\<lambda>t. task_project t = pid) (db_tasks db)"

text \<open>
  \<^verbatim>\<open>updateProgress\<close>: the tasks of the project, the three progress fields,
  \<^verbatim>\<open>statistics.lastActivity\<close>, and \<^verbatim>\<open>this.save()\<close>.
\<close>

definition updateProgress :: "Date \<Rightarrow> project \<Rightarrow> db \<Rightarrow> db" where
  "updateProgress now p db =
     (let tasks = tasks_of_project (project_id p) db;
          g1 = (project_progress p)
                 \<lparr>totalTasks := length tasks,
                  completedTasks := length (filter (\<lambda>task. task_status task = Completed) tasks)\<rparr>;
          g2 = g1\<lparr>percentage := progress_percentage g1\<rparr>
      in project_save
           (p\<lparr>project_progress := g2,
              project_statistics := (project_statistics p)\<lparr>lastActivity := now\<rparr>\<rparr>) db)"

subsection \<open>Saving a task\<close>

text \<open>
  \<^verbatim>\<open>taskSchema.post('save')\<close>: the progress of the task's project is recomputed when the
  project exists. The hook's \<^verbatim>\<open>try\<close>/\<^verbatim>\<open>catch\<close> swallows errors; none arises in the model.
\<close>

definition task_post_save :: "Date \<Rightarrow> task \<Rightarrow> db \<Rightarrow> db" where
  "task_post_save now doc db =
     (case findById project_id (task_project doc) (db_projects db) of
        Some project \<Rightarrow> updateProgress now project db
      | None \<Rightarrow> db)"

text \<open>
  \<^verbatim>\<open>task.save()\<close>: the pre-save hook, the write, the post-save hook. A route loads the
  document from the store and changes it, so \<^verbatim>\<open>isModified('status')\<close> is whether the status
  differs from the stored one; a document that is not in the store yet is built by
  \<^verbatim>\<open>POST /api/tasks\<close> without a status, which leaves the path unmodified. (For a new
  document built with an explicit status Mongoose reports the path modified; no route builds
  one.)
\<close>

definition task_save :: "Date \<Rightarrow> task \<Rightarrow> db \<Rightarrow> task \<times> db" where
  "task_save now doc db =
     (let isModified_status =
            (case findById task_id (task_id doc) (db_tasks db) of
               Some stored \<Rightarrow> task_status stored \<noteq> task_status doc
             | None \<Rightarrow> False);
          doc' = task_pre_save isModified_status now doc;
          db' = db\<lparr>db_tasks := write_doc task_id doc' (db_tasks db)\<rparr>
      in (doc', task_post_save now doc' db'))"

subsection \<open>Saving a message\<close>

text \<open>
  \<^verbatim>\<open>message.save()\<close>. The pre-save hook collects the mentions of the content into a local
  array and changes nothing. The post-save hook is
  \<^verbatim>\<open>Project.findByIdAndUpdate(doc.project, {$inc: ..., $set: ...})\<close>, an update in the store
  that runs no project hook.
\<close>

definition message_save :: "Date \<Rightarrow> message \<Rightarrow> db \<Rightarrow> db" where
  "message_save now doc db =
     db\<lparr>db_messages := write_doc message_id doc (db_messages db),
        db_projects :=
          update_first (\<lambda>p. project_id p = message_project doc)
            (\<lambda>p. p\<lparr>project_statistics :=
                      \<lparr>totalMessages = totalMessages (project_statistics p) + 1,
                       lastActivity = now\<rparr>\<rparr>)
            (db_projects db)\<rparr>"

subsection \<open>Creating a notification\<close>

text \<open>
  An error a route or a model method throws. \<open>AppError\<close> is the application's own class
  (message and status code); \<open>Error\<close> is any other error without a status code (a plain
  \<^verbatim>\<open>Error\<close>, or the \<^verbatim>\<open>TypeError\<close> of reading a property of \<^verbatim>\<open>null\<close>); the others are the
  errors of Mongoose, MongoDB, jsonwebtoken, multer and a rate limiter that the error
  handler tells apart by \<^verbatim>\<open>name\<close>, \<^verbatim>\<open>code\<close> or \<^verbatim>\<open>status\<close>.
\<close>

datatype multer_code = LIMIT_FILE_SIZE | LIMIT_FILE_COUNT | LIMIT_UNEXPECTED_FILE

datatype thrown =
    AppError string nat
  | Error string
  | CastError string string
  | DuplicateKeyError "(string \<times> string) list"
  | ValidationError "string list"
  | JsonWebTokenError
  | TokenExpiredError
  | MulterError multer_code
  | TooManyRequestsError

text \<open>
  The \<^verbatim>\<open>_id\<close> Mongoose gives a new notification: one that no notification of the collection
  has. Which one it is shows in no response.
\<close>

definition new_ObjectId :: "ObjectId list \<Rightarrow> ObjectId" where
  "new_ObjectId ids = Suc (foldr max ids 0)"

text \<open>
  \<^verbatim>\<open>Notification.createNotification\<close>, with the defaults of the fields no caller passes
  (\<^verbatim>\<open>expiresAt = null\<close>). The recipient must exist; the channels are cut down to the user's
  preferences; the document is saved (the pre-save hook sets the expiry).
\<close>

record notificationData =
  data_recipient :: ObjectId
  data_sender :: ObjectId
  data_type :: notification_type
  data_project :: "ObjectId option"
  data_task :: "ObjectId option"
  data_message :: "ObjectId option"
  data_priority :: task_priority
  data_channels :: channels

definition default_channels :: channels where
  "default_channels = \<lparr>channel_inApp = True, channel_email = False, channel_push = False\<rparr>"

definition createNotification :: "Date \<Rightarrow> notificationData \<Rightarrow> db \<Rightarrow> thrown option \<times> db" where
  "createNotification now d db =
     (case findById user_id (data_recipient d) (db_users db) of
        None \<Rightarrow> (Some (Error ''Recipient user not found''), db)
      | Some user \<Rightarrow>
          (let finalChannels =
                 \<lparr>channel_inApp = channel_inApp (data_channels d),
                  channel_email = (channel_email (data_channels d) \<and> user_notifications_email user),
                  channel_push = (channel_push (data_channels d) \<and> user_notifications_push user)\<rparr>;
               notification =
                 \<lparr>notification_id = new_ObjectId (map notification_id (db_notifications db)),
                  notification_recipient = data_recipient d,
                  notification_sender = Some (data_sender d),
                  notification_type = data_type d,
                  notification_project = data_project d,
                  notification_task = data_task d,
                  notification_message = data_message d,
                  notification_isRead = False,
                  notification_readAt = None,
                  notification_priority = data_priority d,
                  notification_expiresAt = None,
                  notification_channels = finalChannels\<rparr>
           in (None, db\<lparr>db_notifications := db_notifications db @ [notification_pre_save now notification]\<rparr>)))"

text \<open>
  \<^verbatim>\<open>POST /api/tasks\<close> calls \<^verbatim>\<open>createNotification\<close> with the type \<^verbatim>\<open>'task_created'\<close>, which is
  not among the values of the schema's \<^verbatim>\<open>enum\<close>: for a recipient that exists,
  \<^verbatim>\<open>notification.save()\<close> fails validation with Mongoose's message for the path, and nothing
  is stored. The result is the error thrown.
\<close>

definition createNotification_task_created :: "ObjectId \<Rightarrow> db \<Rightarrow> thrown" where
  "createNotification_task_created recipient db =
     (case findById user_id recipient (db_users db) of
        None \<Rightarrow> Error ''Recipient user not found''
      | Some user \<Rightarrow>
          ValidationError
            [[CHR 0x60] @ ''task_created'' @ [CHR 0x60] @ '' is not a valid enum value for path ''
             @ [CHR 0x60] @ ''type'' @ [CHR 0x60] @ ''.''])"

text \<open>
  \<^verbatim>\<open>for (const userId of recipients) { await Notification.createNotification(...) }\<close>: the first
  error ends the loop, the notifications created before it stay.
\<close>

fun notify_each :: "Date \<Rightarrow> (ObjectId \<Rightarrow> notificationData) \<Rightarrow> ObjectId list \<Rightarrow> db \<Rightarrow> thrown option \<times> db" where
  "notify_each now mk [] db = (None, db)"
| "notify_each now mk (userId # rest) db =
     (case createNotification now (mk userId) db of
        (Some e, db') \<Rightarrow> (Some e, db')
      | (None, db') \<Rightarrow> notify_each now mk rest db')"

text \<open>
  \<^verbatim>\<open>new Set()\<close> with \<^verbatim>\<open>add\<close> of strings: the first occurrence of each element, in order.
  (A \<^verbatim>\<open>Set\<close> of ObjectId objects compares them by identity and drops nothing.)
\<close>

fun set_add_all :: "'a list \<Rightarrow> 'a list \<Rightarrow> 'a list" where
  "set_add_all seen [] = seen"
| "set_add_all seen (x # xs) = set_add_all (if x \<in> set seen then seen else seen @ [x]) xs"

section \<open>Responses and the error middleware\<close>

text \<open>
  A response is the status code and the top-level keys of the JSON body, in the order the
  source writes them. A payload (an object or array of documents) is the opaque \<open>JData\<close>; a key
  whose value is \<^verbatim>\<open>undefined\<close> is not serialised and is absent.
\<close>

datatype json = JBool bool | JString string | JNumber int | JData

record response =
  res_status :: nat
  res_body :: "(string \<times> json) list"

definition res_json :: "nat \<Rightarrow> (string \<times> json) list \<Rightarrow> response" where
  "res_json code body = \<lparr>res_status = code, res_body = body\<rparr>"

text \<open>
  The object \<^verbatim>\<open>sendErrorDev\<close> and \<^verbatim>\<open>sendErrorProd\<close> receive: \<^verbatim>\<open>statusCode\<close>, \<^verbatim>\<open>message\<close>,
  \<^verbatim>\<open>isOperational\<close>, and whether it has a \<^verbatim>\<open>stack\<close>. \<open>new_AppError\<close> is the constructor of
  \<^verbatim>\<open>class AppError\<close>.
\<close>

record error_object =
  statusCode :: nat
  error_message :: string
  isOperational :: bool
  has_stack :: bool

definition new_AppError :: "string \<Rightarrow> nat \<Rightarrow> error_object" where
  "new_AppError msg code =
     \<lparr>statusCode = code, error_message = msg, isOperational = True, has_stack = True\<rparr>"

definition handleCastErrorDB :: "string \<Rightarrow> string \<Rightarrow> error_object" where
  "handleCastErrorDB path val = new_AppError (''Invalid '' @ path @ '': '' @ val) 400"

definition handleDuplicateFieldsDB :: "(string \<times> string) list \<Rightarrow> error_object" where
  "handleDuplicateFieldsDB keyValue =
     (let duplicatedField = (case keyValue of [] \<Rightarrow> ''undefined'' | (k, v) # rest \<Rightarrow> k);
          duplicatedValue = (case keyValue of [] \<Rightarrow> ''undefined'' | (k, v) # rest \<Rightarrow> v);
          msg = (if duplicatedField = ''email''
                 then ''An account with this email address already exists''
                 else duplicatedField @ '' '' @ [CHR 0x27] @ duplicatedValue @ [CHR 0x27] @ '' already exists'')
      in new_AppError msg 400)"

fun join :: "string \<Rightarrow> string list \<Rightarrow> string" where
  "join sep [] = []"
| "join sep [x] = x"
| "join sep (x # y # ys) = x @ sep @ join sep (y # ys)"

definition handleValidationErrorDB :: "string list \<Rightarrow> error_object" where
  "handleValidationErrorDB errors = new_AppError (''Validation failed: '' @ join ''. '' errors) 400"

definition handleJWTError :: error_object where
  "handleJWTError = new_AppError ''Invalid token. Please log in again.'' 401"

definition handleJWTExpiredError :: error_object where
  "handleJWTExpiredError = new_AppError ''Your token has expired. Please log in again.'' 401"

definition sendErrorDev :: "error_object \<Rightarrow> response" where
  "sendErrorDev err =
     res_json (statusCode err)
       ([(''success'', JBool False), (''error'', JData), (''message'', JString (error_message err))]
        @ (if has_stack err then [(''stack'', JData)] else []))"

definition sendErrorProd :: "error_object \<Rightarrow> response" where
  "sendErrorProd err =
     (if isOperational err
      then res_json (statusCode err) [(''success'', JBool False), (''message'', JString (error_message err))]
      else res_json 500 [(''success'', JBool False), (''message'', JString ''Something went wrong!'')])"

text \<open>
  \<^verbatim>\<open>errorHandler\<close>. \<^verbatim>\<open>let error = { ...err }\<close> copies the enumerable properties
  (\<^verbatim>\<open>statusCode\<close> and \<^verbatim>\<open>isOperational\<close> of an \<^verbatim>\<open>AppError\<close>; never the \<^verbatim>\<open>stack\<close>), the message is
  copied by hand, and \<^verbatim>\<open>err.statusCode || 500\<close> replaces a missing or zero status code. The
  first argument is \<^verbatim>\<open>process.env.NODE_ENV === 'development'\<close>.
\<close>

definition errorHandler :: "bool \<Rightarrow> thrown \<Rightarrow> response" where
  "errorHandler development err =
     (let error =
        (case err of
           AppError msg code \<Rightarrow>
             \<lparr>statusCode = (if code = 0 then 500 else code), error_message = msg,
              isOperational = True, has_stack = False\<rparr>
         | Error msg \<Rightarrow>
             \<lparr>statusCode = 500, error_message = msg, isOperational = False, has_stack = False\<rparr>
         | CastError path val \<Rightarrow> handleCastErrorDB path val
         | DuplicateKeyError keyValue \<Rightarrow> handleDuplicateFieldsDB keyValue
         | ValidationError errors \<Rightarrow> handleValidationErrorDB errors
         | JsonWebTokenError \<Rightarrow> handleJWTError
         | TokenExpiredError \<Rightarrow> handleJWTExpiredError
         | MulterError LIMIT_FILE_SIZE \<Rightarrow>
             new_AppError ''File too large. Maximum size allowed is 10MB.'' 413
         | MulterError LIMIT_FILE_COUNT \<Rightarrow>
             new_AppError ''Too many files. Maximum 10 files allowed.'' 413
         | MulterError LIMIT_UNEXPECTED_FILE \<Rightarrow> new_AppError ''Unexpected file field.'' 400
         | TooManyRequestsError \<Rightarrow>
             new_AppError ''Too many requests. Please try again later.'' 429)
      in if development then sendErrorDev error else sendErrorProd error)"

text \<open>
  \<^verbatim>\<open>catchAsync\<close>: a route handler either sends a response or throws; what it throws goes to
  \<^verbatim>\<open>errorHandler\<close>. The store is as the handler left it at that point.
\<close>

definition catchAsync :: "bool \<Rightarrow> (thrown + response) \<times> db \<Rightarrow> response \<times> db" where
  "catchAsync development r =
     (case r of
        (Inl err, db) \<Rightarrow> (errorHandler development err, db)
      | (Inr res, db) \<Rightarrow> (res, db))"

text \<open>
  \<^verbatim>\<open>handleValidationErrors\<close>. Its argument is \<^verbatim>\<open>validationResult(req).array()\<close>, the errors the
  express-validator chains of the route found in the request; the chains themselves are
  declarations for that library. A request field has the type its chain checks (an id for
  \<^verbatim>\<open>isMongoId\<close>, a status for \<^verbatim>\<open>isIn([...])\<close>) and the value the sanitisers left.
\<close>

record validation_error =
  error_field :: string
  error_msg :: string

definition handleValidationErrors :: "validation_error list \<Rightarrow> response option" where
  "handleValidationErrors errors =
     (if errors \<noteq> []
      then Some (res_json 400
             [(''success'', JBool False), (''message'', JString ''Validation failed''), (''errors'', JData)])
      else None)"

text \<open>
  What a request handler takes from its surroundings: whether \<^verbatim>\<open>NODE_ENV\<close> is
  \<^verbatim>\<open>'development'\<close>, the clock, the \<^verbatim>\<open>_id\<close> Mongoose generates for the document or
  subdocument the request creates, and MongoDB's test of a string against
  \<^verbatim>\<open>{$regex: pattern, $options: 'i'}\<close> (pattern first).
\<close>

record env =
  env_development :: bool
  env_now :: Date
  env_new_id :: ObjectId
  env_regex :: "string \<Rightarrow> string \<Rightarrow> bool"

section \<open>The task routes\<close>

text \<open>
  The handlers of the task router, each as a function of the authenticated user's id
  (\<^verbatim>\<open>req.user._id\<close>), the request's parameters and the store. A handler returns what it sends
  or throws, and the store as it leaves it. Real-time events (\<^verbatim>\<open>req.io\<close>) are not part of the
  state and are left out.

  Every handler of a route with \<^verbatim>\<open>:id\<close> starts with
  \<^verbatim>\<open>Task.findById(req.params.id).populate('project')\<close>, the 404 of
  a missing task, and \<^verbatim>\<open>project.owner\<close>; for a task whose project is gone, \<^verbatim>\<open>populate\<close> leaves
  \<^verbatim>\<open>null\<close> and reading \<^verbatim>\<open>owner\<close> throws a \<^verbatim>\<open>TypeError\<close>.
\<close>

definition find_task_with_project :: "ObjectId \<Rightarrow> db \<Rightarrow> thrown + task \<times> project" where
  "find_task_with_project taskId db =
     (case findById task_id taskId (db_tasks db) of
        None \<Rightarrow> Inl (AppError ''Task not found'' 404)
      | Some task \<Rightarrow>
          (case findById project_id (task_project task) (db_projects db) of
             None \<Rightarrow> Inl (Error ''Cannot read properties of null'')
           | Some project \<Rightarrow> Inr (task, project)))"

definition status_name :: "task_status \<Rightarrow> string" where
  "status_name s =
     (case s of Todo \<Rightarrow> ''todo'' | InProgress \<Rightarrow> ''in-progress'' | InReview \<Rightarrow> ''in-review''
      | Completed \<Rightarrow> ''completed'' | Cancelled \<Rightarrow> ''cancelled'')"

definition task_notification :: "notification_type \<Rightarrow> ObjectId \<Rightarrow> task \<Rightarrow> ObjectId \<Rightarrow> notificationData" where
  "task_notification type sender task recipient =
     \<lparr>data_recipient = recipient, data_sender = sender, data_type = type,
      data_project = Some (task_project task), data_task = Some (task_id task),
      data_message = None, data_priority = Medium, data_channels = default_channels\<rparr>"

subsection \<open>GET /api/tasks\<close>

text \<open>
  The list of tasks. With a \<^verbatim>\<open>project\<close> in the query string the project must exist and the
  caller be its owner or a member; without it the tasks of the caller's projects are listed.
  The other filters, the sort order and the page select what the payload holds and nothing
  else.
\<close>

definition get_tasks :: "ObjectId \<Rightarrow> ObjectId option \<Rightarrow> db \<Rightarrow> (thrown + response) \<times> db" where
  "get_tasks userId project db =
     (case project of
        Some projectId \<Rightarrow>
          (case findById project_id projectId (db_projects db) of
             None \<Rightarrow> (Inl (AppError ''Project not found'' 404), db)
           | Some projectDoc \<Rightarrow>
               if not_owner_or_member userId projectDoc
               then (Inl (AppError ''Access denied - not a project member'' 403), db)
               else (Inr (res_json 200 [(''success'', JBool True), (''data'', JData)]), db))
      | None \<Rightarrow> (Inr (res_json 200 [(''success'', JBool True), (''data'', JData)]), db))"

subsection \<open>POST /api/tasks\<close>

text \<open>
  The request body, for the fields of a task that are modelled (\<^verbatim>\<open>estimatedHours\<close> and \<^verbatim>\<open>tags\<close>
  are stored and never read), and \<^verbatim>\<open>new Task({...})\<close> with the defaults of the schema.
\<close>

record task_create =
  create_title :: string
  create_description :: "string option"
  create_project :: ObjectId
  create_assignee :: "ObjectId option"
  create_dueDate :: "Date option"
  create_priority :: "task_priority option"

definition new_Task :: "env \<Rightarrow> ObjectId \<Rightarrow> task_create \<Rightarrow> task" where
  "new_Task env userId body =
     \<lparr>task_id = env_new_id env, task_title = create_title body,
      task_description = (case create_description body of Some d \<Rightarrow> d | None \<Rightarrow> []),
      task_project = create_project body, task_assignee = create_assignee body,
      task_creator = userId, task_status = Todo,
      task_priority = (case create_priority body of Some p \<Rightarrow> p | None \<Rightarrow> Medium),
      task_dueDate = create_dueDate body, task_completedAt = None, task_actualHours = None,
      task_progress = 0, task_dependencies = [], task_subtasks = [], task_comments = [],
      task_watchers = [], task_activity = []\<rparr>"

text \<open>
  The handler: the project and the permission \<^verbatim>\<open>canCreateTasks\<close>, the assignee's membership,
  the save, the notification of the assignee, and the loop over the members and the owner
  (but the caller and the assignee), whose first \<^verbatim>\<open>createNotification\<close> throws.
\<close>

definition post_task :: "env \<Rightarrow> ObjectId \<Rightarrow> task_create \<Rightarrow> db \<Rightarrow> (thrown + response) \<times> db" where
  "post_task env userId body db =
     (case findById project_id (create_project body) (db_projects db) of
        None \<Rightarrow> (Inl (AppError ''Project not found'' 404), db)
      | Some project \<Rightarrow>
          if lacks_permission canCreateTasks userId project
          then (Inl (AppError ''Access denied - cannot create tasks in this project'' 403), db)
          else if (case create_assignee body of
                     Some assignee \<Rightarrow> not_owner_or_member assignee project
                   | None \<Rightarrow> False)
          then (Inl (AppError ''Assignee must be a project member'' 400), db)
          else
            (case task_save (env_now env)
                    (addActivity Created userId (env_now env) (new_Task env userId body)) db of
               (task1, db1) \<Rightarrow>
                 (case (case create_assignee body of
                          Some assignee \<Rightarrow>
                            if assignee \<noteq> userId
                            then createNotification (env_now env)
                                   (task_notification TaskAssigned userId task1 assignee) db1
                            else (None, db1)
                        | None \<Rightarrow> (None, db1)) of
                    (Some err, db2) \<Rightarrow> (Inl err, db2)
                  | (None, db2) \<Rightarrow>
                      (case filter (\<lambda>memberId. memberId \<noteq> userId
                                                \<and> Some memberId \<noteq> create_assignee body)
                              (map member_user (project_members project) @ [project_owner project]) of
                         [] \<Rightarrow>
                           (Inr (res_json 201
                              [(''success'', JBool True),
                               (''message'', JString ''Task created successfully''),
                               (''data'', JData)]), db2)
                       | memberId # rest \<Rightarrow>
                           (Inl (createNotification_task_created memberId db2), db2)))))"

subsection \<open>GET /api/tasks/overdue\<close>

definition get_overdue :: "ObjectId \<Rightarrow> db \<Rightarrow> (thrown + response) \<times> db" where
  "get_overdue userId db = (Inr (res_json 200 [(''success'', JBool True), (''data'', JData)]), db)"

subsection \<open>GET /api/tasks/:id\<close>

definition get_task :: "ObjectId \<Rightarrow> ObjectId \<Rightarrow> db \<Rightarrow> (thrown + response) \<times> db" where
  "get_task userId taskId db =
     (case find_task_with_project taskId db of
        Inl err \<Rightarrow> (Inl err, db)
      | Inr (task, project) \<Rightarrow>
          if not_owner_or_member userId project
          then (Inl (AppError ''Access denied - not a project member'' 403), db)
          else (Inr (res_json 200 [(''success'', JBool True), (''data'', JData)]), db))"

subsection \<open>PUT /api/tasks/:id\<close>

text \<open>
  The request body, \<^verbatim>\<open>updateData\<close>: the fields \<^verbatim>\<open>updateTaskValidation\<close> names, each present or
  absent.
\<close>

record task_update =
  update_title :: "string option"
  update_description :: "string option"
  update_assignee :: "ObjectId option"
  update_status :: "task_status option"
  update_priority :: "task_priority option"
  update_dueDate :: "Date option"
  update_progress :: "nat option"
  update_actualHours :: "rat option"

text \<open>
  \<^verbatim>\<open>changedFields\<close>: the keys with \<^verbatim>\<open>task[key] !== updateData[key]\<close>. Strings and numbers
  compare by value; the stored assignee (an ObjectId) and due date (a \<^verbatim>\<open>Date\<close>) are never
  identical to the string the body holds. The keys are listed in the order of the record;
  only whether the list is empty is used.
\<close>

definition changedFields :: "task \<Rightarrow> task_update \<Rightarrow> string list" where
  "changedFields task updateData =
     (case update_title updateData of
        Some v \<Rightarrow> if task_title task \<noteq> v then [''title''] else [] | None \<Rightarrow> [])
     @ (case update_description updateData of
        Some v \<Rightarrow> if task_description task \<noteq> v then [''description''] else [] | None \<Rightarrow> [])
     @ (case update_assignee updateData of Some v \<Rightarrow> [''assignee''] | None \<Rightarrow> [])
     @ (case update_status updateData of
        Some v \<Rightarrow> if task_status task \<noteq> v then [''status''] else [] | None \<Rightarrow> [])
     @ (case update_priority updateData of
        Some v \<Rightarrow> if task_priority task \<noteq> v then [''priority''] else [] | None \<Rightarrow> [])
     @ (case update_dueDate updateData of Some v \<Rightarrow> [''dueDate''] | None \<Rightarrow> [])
     @ (case update_progress updateData of
        Some v \<Rightarrow> if task_progress task \<noteq> v then [''progress''] else [] | None \<Rightarrow> [])
     @ (case update_actualHours updateData of
        Some v \<Rightarrow> if task_actualHours task \<noteq> Some v then [''actualHours''] else [] | None \<Rightarrow> [])"

definition Object_assign :: "task \<Rightarrow> task_update \<Rightarrow> task" where
  "Object_assign task updateData =
     task\<lparr>task_title := (case update_title updateData of Some v \<Rightarrow> v | None \<Rightarrow> task_title task),
          task_description :=
            (case update_description updateData of Some v \<Rightarrow> v | None \<Rightarrow> task_description task),
          task_assignee :=
            (case update_assignee updateData of Some v \<Rightarrow> Some v | None \<Rightarrow> task_assignee task),
          task_status := (case update_status updateData of Some v \<Rightarrow> v | None \<Rightarrow> task_status task),
          task_priority :=
            (case update_priority updateData of Some v \<Rightarrow> v | None \<Rightarrow> task_priority task),
          task_dueDate :=
            (case update_dueDate updateData of Some v \<Rightarrow> Some v | None \<Rightarrow> task_dueDate task),
          task_progress :=
            (case update_progress updateData of Some v \<Rightarrow> v | None \<Rightarrow> task_progress task),
          task_actualHours :=
            (case update_actualHours updateData of Some v \<Rightarrow> Some v | None \<Rightarrow> task_actualHours task)\<rparr>"

text \<open>
  "Special handling for assignee change": the new assignee must be the owner or a member;
  \<^verbatim>\<open>task.assignTo\<close> saves the task; the key is deleted from \<^verbatim>\<open>updateData\<close>.
\<close>

definition assignee_change ::
  "Date \<Rightarrow> ObjectId \<Rightarrow> project \<Rightarrow> task \<times> task_update \<times> db \<Rightarrow> thrown + task \<times> task_update \<times> db" where
  "assignee_change now userId project s =
     (case s of (task, updateData, db) \<Rightarrow>
        (case update_assignee updateData of
           None \<Rightarrow> Inr s
         | Some assignee \<Rightarrow>
             if Some assignee \<noteq> task_assignee task then
               (if not_owner_or_member assignee project
                then Inl (AppError ''Assignee must be a project member'' 400)
                else (case task_save now (assignTo assignee userId now task) db of
                        (task', db') \<Rightarrow> Inr (task', updateData\<lparr>update_assignee := None\<rparr>, db')))
             else Inr s))"

text \<open>
  "Special handling for status change": \<^verbatim>\<open>task.updateStatus\<close> saves the task; the key is
  deleted from \<^verbatim>\<open>updateData\<close>.
\<close>

definition status_change ::
  "Date \<Rightarrow> ObjectId \<Rightarrow> task \<times> task_update \<times> db \<Rightarrow> task \<times> task_update \<times> db" where
  "status_change now userId s =
     (case s of (task, updateData, db) \<Rightarrow>
        (case update_status updateData of
           None \<Rightarrow> s
         | Some status \<Rightarrow>
             if status \<noteq> task_status task then
               (case task_save now (updateStatus status userId now task) db of
                  (task', db') \<Rightarrow> (task', updateData\<lparr>update_status := None\<rparr>, db'))
             else s))"

text \<open>
  The users a task change is announced to: the assignee, when \<^verbatim>\<open>populate('assignee')\<close> finds
  the user and it is not the caller, and the watchers but the caller. The route passes them
  through \<^verbatim>\<open>new Set\<close>, which compares ObjectId objects by identity and drops none.
\<close>

definition notifyUsers :: "ObjectId \<Rightarrow> task \<Rightarrow> db \<Rightarrow> ObjectId list" where
  "notifyUsers userId task db =
     (case task_assignee task of
        Some assignee \<Rightarrow>
          if findById user_id assignee (db_users db) \<noteq> None \<and> assignee \<noteq> userId
          then [assignee] else []
      | None \<Rightarrow> [])
     @ filter (\<lambda>watcherId. watcherId \<noteq> userId) (task_watchers task)"

text \<open>
  The end of the handler: \<^verbatim>\<open>task.save()\<close>, the notifications to the assignee and the
  watchers, and the response.
\<close>

definition updated_response :: response where
  "updated_response =
     res_json 200
       [(''success'', JBool True),
        (''message'', JString ''Task updated successfully''),
        (''data'', JData)]"

definition save_and_notify :: "env \<Rightarrow> ObjectId \<Rightarrow> task \<Rightarrow> db \<Rightarrow> (thrown + response) \<times> db" where
  "save_and_notify env userId task db =
     (case task_save (env_now env) task db of
        (task', db1) \<Rightarrow>
          (case notify_each (env_now env)
                  (task_notification TaskUpdated userId task')
                  (notifyUsers userId task' db1) db1 of
             (Some err, db2) \<Rightarrow> (Inl err, db2)
           | (None, db2) \<Rightarrow> (Inr updated_response, db2)))"

definition put_task :: "env \<Rightarrow> ObjectId \<Rightarrow> ObjectId \<Rightarrow> task_update \<Rightarrow> db \<Rightarrow> (thrown + response) \<times> db" where
  "put_task env userId taskId updateData db =
     (case find_task_with_project taskId db of
        Inl err \<Rightarrow> (Inl err, db)
      | Inr (task, project) \<Rightarrow>
          if lacks_permission canEditTasks userId project
          then (Inl (AppError ''Access denied - cannot edit tasks in this project'' 403), db)
          else
            (case assignee_change (env_now env) userId project (task, updateData, db) of
               Inl err \<Rightarrow> (Inl err, db)
             | Inr s1 \<Rightarrow>
                 (case status_change (env_now env) userId s1 of
                    (task2, updateData2, db2) \<Rightarrow>
                      (let task3 = Object_assign task2 updateData2;
                           task4 = (if changedFields task updateData \<noteq> []
                                    then addActivity Updated userId (env_now env) task3
                                    else task3)
                       in save_and_notify env userId task4 db2))))"

subsection \<open>DELETE /api/tasks/:id\<close>

text \<open>
  The two store operations of the handler:
  \<^verbatim>\<open>Task.updateMany({'dependencies.task': id}, {$pull: {dependencies: {task: id}}})\<close> and
  \<^verbatim>\<open>task.deleteOne()\<close>. Neither runs the save hooks.
\<close>

definition pull_dependencies :: "ObjectId \<Rightarrow> db \<Rightarrow> db" where
  "pull_dependencies taskId db =
     db\<lparr>db_tasks :=
          map (\<lambda>t. if list_ex (\<lambda>d. dependency_task d = taskId) (task_dependencies t)
                    then t\<lparr>task_dependencies :=
                             filter (\<lambda>d. dependency_task d \<noteq> taskId) (task_dependencies t)\<rparr>
                    else t)
              (db_tasks db)\<rparr>"

definition deleteOne_task :: "ObjectId \<Rightarrow> db \<Rightarrow> db" where
  "deleteOne_task taskId db = db\<lparr>db_tasks := delete_doc task_id taskId (db_tasks db)\<rparr>"

definition delete_task :: "ObjectId \<Rightarrow> ObjectId \<Rightarrow> db \<Rightarrow> (thrown + response) \<times> db" where
  "delete_task userId taskId db =
     (case find_task_with_project taskId db of
        Inl err \<Rightarrow> (Inl err, db)
      | Inr (task, project) \<Rightarrow>
          if lacks_permission canDeleteTasks userId project
          then (Inl (AppError ''Access denied - cannot delete tasks in this project'' 403), db)
          else
            (let db1 = pull_dependencies (task_id task) db;
                 db2 = deleteOne_task (task_id task) db1
             in (Inr (res_json 200
                   [(''success'', JBool True),
                    (''message'', JString ''Task deleted successfully'')]), db2)))"

subsection \<open>POST /api/tasks/:id/comments\<close>

definition post_comment ::
  "env \<Rightarrow> ObjectId \<Rightarrow> ObjectId \<Rightarrow> string \<Rightarrow> ObjectId list \<Rightarrow> db \<Rightarrow> (thrown + response) \<times> db" where
  "post_comment env userId taskId content mentions db =
     (case find_task_with_project taskId db of
        Inl err \<Rightarrow> (Inl err, db)
      | Inr (task, project) \<Rightarrow>
          if not_owner_or_member userId project
          then (Inl (AppError ''Access denied - not a project member'' 403), db)
          else
            (case task_save (env_now env)
                    (addComment (env_new_id env) userId content mentions (env_now env) task) db of
               (task1, db1) \<Rightarrow>
                 (let recipients =
                        set_add_all []
                          ((case task_assignee task1 of
                              Some assignee \<Rightarrow> if assignee \<noteq> userId then [assignee] else []
                            | None \<Rightarrow> [])
                           @ filter (\<lambda>mentioned. mentioned \<noteq> userId) mentions
                           @ filter (\<lambda>watcherId. watcherId \<noteq> userId) (task_watchers task1))
                  in case notify_each (env_now env)
                            (task_notification TaskComment userId task1) recipients db1 of
                       (Some err, db2) \<Rightarrow> (Inl err, db2)
                     | (None, db2) \<Rightarrow>
                         (Inr (res_json 201
                            [(''success'', JBool True),
                             (''message'', JString ''Comment added successfully''),
                             (''data'', JData)]), db2))))"

subsection \<open>PUT /api/tasks/:id/status\<close>

definition put_task_status ::
  "env \<Rightarrow> ObjectId \<Rightarrow> ObjectId \<Rightarrow> task_status \<Rightarrow> db \<Rightarrow> (thrown + response) \<times> db" where
  "put_task_status env userId taskId status db =
     (case find_task_with_project taskId db of
        Inl err \<Rightarrow> (Inl err, db)
      | Inr (task, project) \<Rightarrow>
          if not_owner_or_member userId project
             \<and> task_assignee task \<noteq> Some userId
          then (Inl (AppError ''Access denied'' 403), db)
          else
            (case task_save (env_now env) (updateStatus status userId (env_now env) task) db of
               (task1, db1) \<Rightarrow>
                 (case (if status = Completed
                        then notify_each (env_now env)
                               (task_notification TaskCompleted userId task1)
                               (notifyUsers userId task1 db1) db1
                        else (None, db1)) of
                    (Some err, db2) \<Rightarrow> (Inl err, db2)
                  | (None, db2) \<Rightarrow>
                      (Inr (res_json 200
                         [(''success'', JBool True),
                          (''message'', JString (''Task status updated to '' @ status_name status)),
                          (''data'', JData)]), db2))))"

subsection \<open>POST /api/tasks/:id/subtasks and PUT /api/tasks/:id/subtasks/:subtaskId/toggle\<close>

definition post_subtask ::
  "env \<Rightarrow> ObjectId \<Rightarrow> ObjectId \<Rightarrow> string \<Rightarrow> db \<Rightarrow> (thrown + response) \<times> db" where
  "post_subtask env userId taskId title db =
     (case find_task_with_project taskId db of
        Inl err \<Rightarrow> (Inl err, db)
      | Inr (task, project) \<Rightarrow>
          if not_owner_or_member userId project
          then (Inl (AppError ''Access denied - not a project member'' 403), db)
          else
            (case task_save (env_now env) (addSubtask (env_new_id env) title task) db of
               (task1, db1) \<Rightarrow>
                 (Inr (res_json 201
                    [(''success'', JBool True),
                     (''message'', JString ''Subtask added successfully''),
                     (''data'', JData)]), db1)))"

definition toggle_subtask ::
  "env \<Rightarrow> ObjectId \<Rightarrow> ObjectId \<Rightarrow> ObjectId \<Rightarrow> db \<Rightarrow> (thrown + response) \<times> db" where
  "toggle_subtask env userId taskId subtaskId db =
     (case find_task_with_project taskId db of
        Inl err \<Rightarrow> (Inl err, db)
      | Inr (task, project) \<Rightarrow>
          if not_owner_or_member userId project
          then (Inl (AppError ''Access denied - not a project member'' 403), db)
          else
            (case toggleSubtask subtaskId (env_now env) task of
               None \<Rightarrow> (Inl (Error ''Subtask not found''), db)
             | Some toggled \<Rightarrow>
                 (case task_save (env_now env) toggled db of
                    (task1, db1) \<Rightarrow>
                      (Inr (res_json 200
                         [(''success'', JBool True),
                          (''message'', JString ''Subtask updated successfully''),
                          (''data'', JData)]), db1))))"

subsection \<open>POST /api/tasks/:id/watch\<close>

definition post_watch :: "env \<Rightarrow> ObjectId \<Rightarrow> ObjectId \<Rightarrow> db \<Rightarrow> (thrown + response) \<times> db" where
  "post_watch env userId taskId db =
     (case find_task_with_project taskId db of
        Inl err \<Rightarrow> (Inl err, db)
      | Inr (task, project) \<Rightarrow>
          if not_owner_or_member userId project
          then (Inl (AppError ''Access denied - not a project member'' 403), db)
          else
            (let isWatching = (userId \<in> set (task_watchers task))
             in case task_save (env_now env)
                       (if isWatching then removeWatcher userId task else addWatcher userId task) db of
                  (task1, db1) \<Rightarrow>
                    (Inr (res_json 200
                       [(''success'', JBool True),
                        (''message'', JString (if isWatching then ''Stopped watching task''
                                               else ''Now watching task'')),
                        (''data'', JData)]), db1)))"

subsection \<open>The router\<close>

text \<open>
  The eleven routes of the task router. Each is the chain validators,
  \<^verbatim>\<open>handleValidationErrors\<close>, \<^verbatim>\<open>catchAsync(handler)\<close>; the router is mounted behind the
  authentication middleware, which sets \<^verbatim>\<open>req.user\<close>.

  Express offers a request to the routes in the order of their declaration, and
  \<^verbatim>\<open>router.get('/overdue', ...)\<close> is declared after \<^verbatim>\<open>router.get('/:id', ...)\<close>: the path
  \<^verbatim>\<open>/overdue\<close> is taken by the chain of \<^verbatim>\<open>/:id\<close>, whose validator
  \<^verbatim>\<open>param('id').isMongoId()\<close> refuses the id \<^verbatim>\<open>overdue\<close>. \<open>validationResult_task\<close> is what the
  validators of the chain that takes the request find: this one error for \<^verbatim>\<open>/overdue\<close>, and
  the errors given with the request otherwise.
\<close>

datatype task_request =
    GET_tasks "ObjectId option"
  | POST_task task_create
  | GET_task ObjectId
  | PUT_task ObjectId task_update
  | DELETE_task ObjectId
  | POST_task_comments ObjectId string "ObjectId list"
  | PUT_task_status ObjectId task_status
  | POST_task_subtasks ObjectId string
  | PUT_task_subtask_toggle ObjectId ObjectId
  | POST_task_watch ObjectId
  | GET_tasks_overdue

definition validationResult_task :: "validation_error list \<Rightarrow> task_request \<Rightarrow> validation_error list" where
  "validationResult_task errors req =
     (case req of
        GET_tasks_overdue \<Rightarrow> [\<lparr>error_field = ''id'', error_msg = ''Invalid task ID''\<rparr>]
      | _ \<Rightarrow> errors)"

definition task_router ::
  "env \<Rightarrow> ObjectId \<Rightarrow> validation_error list \<Rightarrow> task_request \<Rightarrow> db \<Rightarrow> response \<times> db" where
  "task_router env userId errors req db =
     (case handleValidationErrors (validationResult_task errors req) of
        Some res \<Rightarrow> (res, db)
      | None \<Rightarrow>
          catchAsync (env_development env)
            (case req of
               GET_tasks project \<Rightarrow> get_tasks userId project db
             | POST_task body \<Rightarrow> post_task env userId body db
             | GET_task taskId \<Rightarrow> get_task userId taskId db
             | PUT_task taskId updateData \<Rightarrow> put_task env userId taskId updateData db
             | DELETE_task taskId \<Rightarrow> delete_task userId taskId db
             | POST_task_comments taskId content mentions \<Rightarrow> post_comment env userId taskId content mentions db
             | PUT_task_status taskId status \<Rightarrow> put_task_status env userId taskId status db
             | POST_task_subtasks taskId title \<Rightarrow> post_subtask env userId taskId title db
             | PUT_task_subtask_toggle taskId subtaskId \<Rightarrow> toggle_subtask env userId taskId subtaskId db
             | POST_task_watch taskId \<Rightarrow> post_watch env userId taskId db
             | GET_tasks_overdue \<Rightarrow> get_overdue userId db))"




section \<open>The message routes\<close>

subsection \<open>The middleware requireProjectMember\<close>

text \<open>
  \<^verbatim>\<open>requireProjectMember\<close> answers by itself (\<open>Inl\<close>) or calls \<^verbatim>\<open>next()\<close> with \<^verbatim>\<open>req.project\<close>
  set (\<open>Inr\<close>). Its argument is \<^verbatim>\<open>req.params.projectId || req.body.projectId\<close>.
\<close>

definition requireProjectMember :: "ObjectId \<Rightarrow> ObjectId option \<Rightarrow> db \<Rightarrow> response + project" where
  "requireProjectMember userId projectId db =
     (case projectId of
        None \<Rightarrow>
          Inl (res_json 400 [(''success'', JBool False), (''message'', JString ''Project ID is required'')])
      | Some pid \<Rightarrow>
          (case findById project_id pid (db_projects db) of
             None \<Rightarrow>
               Inl (res_json 404 [(''success'', JBool False), (''message'', JString ''Project not found'')])
           | Some project \<Rightarrow>
               if not_owner_or_member userId project
               then Inl (res_json 403
                      [(''success'', JBool False),
                       (''message'', JString ''Access denied - not a project member'')])
               else Inr project))"

subsection \<open>GET /api/messages/project/:projectId\<close>

text \<open>
  The query string. \<^verbatim>\<open>isBoolean()\<close> lets \<^verbatim>\<open>pinned\<close> be one of four strings, and the handler
  takes \<^verbatim>\<open>pinned === 'true'\<close>.
\<close>

datatype boolean_string = String_true | String_false | String_1 | String_0

record message_query =
  query_page :: "nat option"
  query_limit :: "nat option"
  query_parentMessage :: "ObjectId option"
  query_search :: "string option"
  query_pinned :: "boolean_string option"

text \<open>
  \<^verbatim>\<open>.sort({ isPinned: -1, createdAt: -1 }).limit(limit).skip(offset)\<close>: pinned messages
  first, then the newest first; MongoDB skips before it limits. Documents with equal keys
  stay in storage order.
\<close>

definition sort_limit_skip :: "nat \<Rightarrow> nat \<Rightarrow> message list \<Rightarrow> message list" where
  "sort_limit_skip limit offset docs =
     take limit (drop offset
       (sort_key (\<lambda>m. if message_isPinned m then (0::nat) else 1)
          (sort_key (\<lambda>m. - message_createdAt m) docs)))"

text \<open>
  \<^verbatim>\<open>msg.readBy.some(read => read.user._id.toString() === userId)\<close> after
  \<^verbatim>\<open>populate('readBy.user')\<close>, which leaves \<^verbatim>\<open>null\<close> for a user that is gone: reading \<^verbatim>\<open>_id\<close>
  of it throws.
\<close>

fun readBy_some :: "ObjectId \<Rightarrow> db \<Rightarrow> read_receipt list \<Rightarrow> thrown + bool" where
  "readBy_some userId db [] = Inr False"
| "readBy_some userId db (read # reads) =
     (if findById user_id (read_user read) (db_users db) = None
      then Inl (Error ''Cannot read properties of null'')
      else if read_user read = userId then Inr True
      else readBy_some userId db reads)"

fun unreadMessageIds :: "ObjectId \<Rightarrow> db \<Rightarrow> message list \<Rightarrow> thrown + ObjectId list" where
  "unreadMessageIds userId db [] = Inr []"
| "unreadMessageIds userId db (msg # msgs) =
     (case readBy_some userId db (message_readBy msg) of
        Inl err \<Rightarrow> Inl err
      | Inr isRead \<Rightarrow>
          (case unreadMessageIds userId db msgs of
             Inl err \<Rightarrow> Inl err
           | Inr ids \<Rightarrow> Inr (if \<not> isRead then message_id msg # ids else ids)))"

text \<open>
  \<^verbatim>\<open>$addToSet: { readBy: { user, readAt } }\<close> on the messages a filter selects: the receipt is
  added unless an equal one is there.
\<close>

definition addToSet_readBy :: "(message \<Rightarrow> bool) \<Rightarrow> read_receipt \<Rightarrow> db \<Rightarrow> db" where
  "addToSet_readBy selected receipt db =
     db\<lparr>db_messages :=
          map (\<lambda>m. if selected m \<and> receipt \<notin> set (message_readBy m)
                    then m\<lparr>message_readBy := message_readBy m @ [receipt]\<rparr>
                    else m)
              (db_messages db)\<rparr>"

definition get_project_messages ::
  "env \<Rightarrow> ObjectId \<Rightarrow> ObjectId \<Rightarrow> message_query \<Rightarrow> db \<Rightarrow> (thrown + response) \<times> db" where
  "get_project_messages env userId projectId q db =
     (let limit = (case query_limit q of Some n \<Rightarrow> n | None \<Rightarrow> 50);
          page = (case query_page q of Some n \<Rightarrow> n | None \<Rightarrow> 1);
          offset = (page - 1) * limit;
          in_project = (\<lambda>m. message_project m = projectId \<and> \<not> message_isDeleted m);
          messages =
            (case query_search q of
               Some search \<Rightarrow>
                 sort_limit_skip limit offset
                   (filter (\<lambda>m. in_project m \<and> env_regex env search (message_content m))
                      (db_messages db))
             | None \<Rightarrow>
                 sort_limit_skip (if limit = 0 then 50 else limit) offset
                   (filter (\<lambda>m. in_project m
                              \<and> (case query_parentMessage q of
                                    Some parent \<Rightarrow> message_parentMessage m = Some parent
                                  | None \<Rightarrow> True)
                              \<and> (case query_pinned q of
                                    Some pinned \<Rightarrow> message_isPinned m = (pinned = String_true)
                                  | None \<Rightarrow> True))
                      (db_messages db)))
      in case unreadMessageIds userId db messages of
           Inl err \<Rightarrow> (Inl err, db)
         | Inr ids \<Rightarrow>
             (Inr (res_json 200 [(''success'', JBool True), (''data'', JData)]),
              if ids \<noteq> []
              then addToSet_readBy (\<lambda>m. message_id m \<in> set ids)
                     \<lparr>read_user = userId, read_readAt = env_now env\<rparr> db
              else db))"

subsection \<open>POST /api/messages/project/:projectId\<close>

definition message_notification :: "ObjectId \<Rightarrow> ObjectId \<Rightarrow> ObjectId \<Rightarrow> ObjectId \<Rightarrow> notificationData" where
  "message_notification sender projectId messageId recipient =
     \<lparr>data_recipient = recipient, data_sender = sender, data_type = MessageMention,
      data_project = Some projectId, data_task = None, data_message = Some messageId,
      data_priority = Medium, data_channels = default_channels\<rparr>"

definition new_Message ::
  "env \<Rightarrow> string \<Rightarrow> ObjectId \<Rightarrow> ObjectId \<Rightarrow> ObjectId option \<Rightarrow> ObjectId list \<Rightarrow> message" where
  "new_Message env content projectId author parentMessage mentions =
     \<lparr>message_id = env_new_id env, message_content = content, message_project = projectId,
      message_author = author, message_parentMessage = parentMessage, message_mentions = mentions,
      message_reactions = [], message_isEdited = False, message_editedAt = None,
      message_editHistory = [], message_isDeleted = False, message_deletedAt = None,
      message_readBy = [\<lparr>read_user = author, read_readAt = env_now env\<rparr>],
      message_isPinned = False, message_pinnedAt = None, message_pinnedBy = None,
      message_createdAt = env_now env\<rparr>"

definition post_project_message ::
  "env \<Rightarrow> ObjectId \<Rightarrow> project \<Rightarrow> string \<Rightarrow> ObjectId list \<Rightarrow> ObjectId option \<Rightarrow> db
     \<Rightarrow> (thrown + response) \<times> db" where
  "post_project_message env userId project content mentions parentMessage db =
     (if (case parentMessage of
            Some parent \<Rightarrow>
              find (\<lambda>m. message_id m = parent \<and> message_project m = project_id project
                         \<and> \<not> message_isDeleted m) (db_messages db) = None
          | None \<Rightarrow> False)
      then (Inl (AppError ''Parent message not found'' 404), db)
      else if length (filter (\<lambda>mentioned. project_owner project = mentioned \<or> isMember mentioned project)
                        mentions) \<noteq> length mentions
      then (Inl (AppError ''Some mentioned users are not project members'' 400), db)
      else
        (let message = new_Message env content (project_id project) userId parentMessage mentions;
             db1 = message_save (env_now env) message db
         in case notify_each (env_now env)
                   (message_notification userId (project_id project) (message_id message))
                   (filter (\<lambda>mentionId. mentionId \<noteq> userId) mentions) db1 of
              (Some err, db2) \<Rightarrow> (Inl err, db2)
            | (None, db2) \<Rightarrow>
                if list_ex (\<lambda>m. findById user_id (member_user m) (db_users db2) = None)
                     (project_members project)
                then (Inl (Error ''Cannot read properties of null''), db2)
                else (Inr (res_json 201
                        [(''success'', JBool True),
                         (''message'', JString ''Message sent successfully''),
                         (''data'', JData)]), db2)))"

subsection \<open>The routes that address one message\<close>

text \<open>
  They start with \<^verbatim>\<open>Message.findById(req.params.id).populate('project', ...)\<close> and the 404 of a
  missing message; \<^verbatim>\<open>message.project\<close> is \<^verbatim>\<open>null\<close> when the project is gone, and reading its
  \<^verbatim>\<open>owner\<close> throws.
\<close>

definition find_message_with_project :: "string \<Rightarrow> ObjectId \<Rightarrow> db \<Rightarrow> thrown + message \<times> project" where
  "find_message_with_project not_found messageId db =
     (case findById message_id messageId (db_messages db) of
        None \<Rightarrow> Inl (AppError not_found 404)
      | Some message \<Rightarrow>
          (case findById project_id (message_project message) (db_projects db) of
             None \<Rightarrow> Inl (Error ''Cannot read properties of null'')
           | Some project \<Rightarrow> Inr (message, project)))"

text \<open>
  \<^verbatim>\<open>GET /api/messages/:id\<close>. The route populates \<^verbatim>\<open>readBy.user\<close> before it calls
  \<^verbatim>\<open>message.markAsRead\<close>, whose test is \<^verbatim>\<open>read.user.toString() === userId.toString()\<close>:
  \<^verbatim>\<open>read.user\<close> is then \<^verbatim>\<open>null\<close> for a user that is gone (a \<^verbatim>\<open>TypeError\<close>) and a user document
  otherwise, and the \<^verbatim>\<open>toString()\<close> of a Mongoose document is its inspection string, never
  an id. No receipt is found, and a new one is pushed and saved.
\<close>

definition get_message :: "env \<Rightarrow> ObjectId \<Rightarrow> ObjectId \<Rightarrow> db \<Rightarrow> (thrown + response) \<times> db" where
  "get_message env userId messageId db =
     (case find_message_with_project ''Message not found'' messageId db of
        Inl err \<Rightarrow> (Inl err, db)
      | Inr (message, project) \<Rightarrow>
          if not_owner_or_member userId project
          then (Inl (AppError ''Access denied - not a project member'' 403), db)
          else if list_ex (\<lambda>read. findById user_id (read_user read) (db_users db) = None)
                    (message_readBy message)
          then (Inl (Error ''Cannot read properties of null''), db)
          else (Inr (res_json 200 [(''success'', JBool True), (''data'', JData)]),
                message_save (env_now env)
                  (message\<lparr>message_readBy := message_readBy message @
                       [\<lparr>read_user = userId, read_readAt = env_now env\<rparr>]\<rparr>) db))"

definition put_message :: "env \<Rightarrow> ObjectId \<Rightarrow> ObjectId \<Rightarrow> string \<Rightarrow> db \<Rightarrow> (thrown + response) \<times> db" where
  "put_message env userId messageId content db =
     (case find_message_with_project ''Message not found'' messageId db of
        Inl err \<Rightarrow> (Inl err, db)
      | Inr (message, project) \<Rightarrow>
          if message_author message \<noteq> userId \<and> project_owner project \<noteq> userId
          then (Inl (AppError ''Access denied - can only edit your own messages'' 403), db)
          else (Inr (res_json 200
                  [(''success'', JBool True),
                   (''message'', JString ''Message edited successfully''),
                   (''data'', JData)]),
                message_save (env_now env) (editContent content (env_now env) message) db))"

definition delete_message :: "env \<Rightarrow> ObjectId \<Rightarrow> ObjectId \<Rightarrow> db \<Rightarrow> (thrown + response) \<times> db" where
  "delete_message env userId messageId db =
     (case find_message_with_project ''Message not found'' messageId db of
        Inl err \<Rightarrow> (Inl err, db)
      | Inr (message, project) \<Rightarrow>
          if message_author message \<noteq> userId \<and> project_owner project \<noteq> userId
          then (Inl (AppError ''Access denied - can only delete your own messages'' 403), db)
          else (Inr (res_json 200
                  [(''success'', JBool True),
                   (''message'', JString ''Message deleted successfully'')]),
                message_save (env_now env) (softDelete (env_now env) message) db))"

datatype reaction_action = Action_add | Action_remove

definition action_name :: "reaction_action \<Rightarrow> string" where
  "action_name a = (case a of Action_add \<Rightarrow> ''add'' | Action_remove \<Rightarrow> ''remove'')"

definition post_reaction ::
  "env \<Rightarrow> ObjectId \<Rightarrow> ObjectId \<Rightarrow> string \<Rightarrow> reaction_action \<Rightarrow> db \<Rightarrow> (thrown + response) \<times> db" where
  "post_reaction env userId messageId emoji action db =
     (case find_message_with_project ''Message not found'' messageId db of
        Inl err \<Rightarrow> (Inl err, db)
      | Inr (message, project) \<Rightarrow>
          if not_owner_or_member userId project
          then (Inl (AppError ''Access denied - not a project member'' 403), db)
          else (Inr (res_json 200
                  [(''success'', JBool True),
                   (''message'', JString (''Reaction '' @ action_name action @ ''ed successfully'')),
                   (''data'', JData)]),
                message_save (env_now env)
                  (if action = Action_add then addReaction emoji userId message
                   else removeReaction emoji userId message) db))"

definition post_pin :: "env \<Rightarrow> ObjectId \<Rightarrow> ObjectId \<Rightarrow> db \<Rightarrow> (thrown + response) \<times> db" where
  "post_pin env userId messageId db =
     (case find_message_with_project ''Message not found'' messageId db of
        Inl err \<Rightarrow> (Inl err, db)
      | Inr (message, project) \<Rightarrow>
          if project_owner project \<noteq> userId \<and>
             (case find_member userId project of
                None \<Rightarrow> True
              | Some member \<Rightarrow> member_role member \<noteq> RoleAdmin)
          then (Inl (AppError ''Access denied - only project owners and admins can pin messages'' 403), db)
          else
            (let wasPinned = message_isPinned message
             in (Inr (res_json 200
                   [(''success'', JBool True),
                    (''message'', JString (''Message '' @ (if wasPinned then ''unpinned'' else ''pinned'')
                                           @ '' successfully'')),
                    (''data'', JData)]),
                 message_save (env_now env)
                   (if wasPinned then unpin message else pin userId (env_now env) message) db)))"

definition get_replies :: "ObjectId \<Rightarrow> ObjectId \<Rightarrow> db \<Rightarrow> (thrown + response) \<times> db" where
  "get_replies userId messageId db =
     (case find_message_with_project ''Parent message not found'' messageId db of
        Inl err \<Rightarrow> (Inl err, db)
      | Inr (parentMessage, project) \<Rightarrow>
          if not_owner_or_member userId project
          then (Inl (AppError ''Access denied - not a project member'' 403), db)
          else (Inr (res_json 200 [(''success'', JBool True), (''data'', JData)]), db))"

subsection \<open>PUT /api/messages/project/:projectId/read-all\<close>

definition put_read_all :: "env \<Rightarrow> ObjectId \<Rightarrow> ObjectId \<Rightarrow> db \<Rightarrow> (thrown + response) \<times> db" where
  "put_read_all env userId projectId db =
     (Inr (res_json 200
        [(''success'', JBool True),
         (''message'', JString ''All messages marked as read''),
         (''data'', JData)]),
      addToSet_readBy
        (\<lambda>m. message_project m = projectId \<and> \<not> message_isDeleted m
              \<and> \<not> list_ex (\<lambda>read. read_user read = userId) (message_readBy m)
              \<and> message_author m \<noteq> userId)
        \<lparr>read_user = userId, read_readAt = env_now env\<rparr> db)"

subsection \<open>GET /api/messages/unread/count and GET /api/messages/search\<close>

text \<open>
  The count is read from the store. The search takes the \<^verbatim>\<open>project\<close> of the query string like
  \<^verbatim>\<open>GET /api/tasks\<close>; the text searched for, the other filters and the page select what the
  payload holds.
\<close>

definition get_unread_count :: "ObjectId \<Rightarrow> db \<Rightarrow> (thrown + response) \<times> db" where
  "get_unread_count userId db =
     (Inr (res_json 200 [(''success'', JBool True), (''data'', JData)]), db)"

definition search_messages :: "ObjectId \<Rightarrow> ObjectId option \<Rightarrow> db \<Rightarrow> (thrown + response) \<times> db" where
  "search_messages userId project db =
     (case project of
        Some projectId \<Rightarrow>
          (case findById project_id projectId (db_projects db) of
             None \<Rightarrow> (Inl (AppError ''Project not found'' 404), db)
           | Some projectDoc \<Rightarrow>
               if not_owner_or_member userId projectDoc
               then (Inl (AppError ''Access denied - not a project member'' 403), db)
               else (Inr (res_json 200 [(''success'', JBool True), (''data'', JData)]), db))
      | None \<Rightarrow> (Inr (res_json 200 [(''success'', JBool True), (''data'', JData)]), db))"

subsection \<open>The router\<close>

text \<open>
  The eleven routes of the message router. Each is the chain validators,
  \<^verbatim>\<open>handleValidationErrors\<close>, \<^verbatim>\<open>requireProjectMember\<close> (the three \<^verbatim>\<open>/project/:projectId\<close> routes
  only), \<^verbatim>\<open>catchAsync(handler)\<close>; \<^verbatim>\<open>/unread/count\<close> has no validators and no
  \<^verbatim>\<open>handleValidationErrors\<close>.

  \<^verbatim>\<open>router.get('/search', ...)\<close> is declared after \<^verbatim>\<open>router.get('/:id', ...)\<close>: the path
  \<^verbatim>\<open>/search\<close> is taken by the chain of \<^verbatim>\<open>/:id\<close>, whose validator refuses the id \<^verbatim>\<open>search\<close>.
  \<open>validationResult_message\<close> is what the validators of the chain that takes the request
  find.
\<close>

datatype message_request =
    GET_project_messages ObjectId message_query
  | POST_project_message ObjectId string "ObjectId list" "ObjectId option"
  | PUT_project_read_all ObjectId
  | GET_message ObjectId
  | PUT_message ObjectId string
  | DELETE_message ObjectId
  | POST_message_reactions ObjectId string reaction_action
  | POST_message_pin ObjectId
  | GET_message_replies ObjectId
  | GET_messages_unread_count
  | GET_messages_search "ObjectId option"

definition validationResult_message ::
  "validation_error list \<Rightarrow> message_request \<Rightarrow> validation_error list" where
  "validationResult_message errors req =
     (case req of
        GET_messages_unread_count \<Rightarrow> []
      | GET_messages_search project \<Rightarrow>
          [\<lparr>error_field = ''id'', error_msg = ''Invalid message ID''\<rparr>]
      | _ \<Rightarrow> errors)"

definition message_router ::
  "env \<Rightarrow> ObjectId \<Rightarrow> validation_error list \<Rightarrow> message_request \<Rightarrow> db \<Rightarrow> response \<times> db" where
  "message_router env userId errors req db =
     (case handleValidationErrors (validationResult_message errors req) of
        Some res \<Rightarrow> (res, db)
      | None \<Rightarrow>
          (case req of
             GET_project_messages projectId q \<Rightarrow>
               (case requireProjectMember userId (Some projectId) db of
                  Inl res \<Rightarrow> (res, db)
                | Inr project \<Rightarrow>
                    catchAsync (env_development env) (get_project_messages env userId projectId q db))
           | POST_project_message projectId content mentions parentMessage \<Rightarrow>
               (case requireProjectMember userId (Some projectId) db of
                  Inl res \<Rightarrow> (res, db)
                | Inr project \<Rightarrow>
                    catchAsync (env_development env)
                      (post_project_message env userId project content mentions parentMessage db))
           | PUT_project_read_all projectId \<Rightarrow>
               (case requireProjectMember userId (Some projectId) db of
                  Inl res \<Rightarrow> (res, db)
                | Inr project \<Rightarrow>
                    catchAsync (env_development env) (put_read_all env userId projectId db))
           | GET_message messageId \<Rightarrow>
               catchAsync (env_development env) (get_message env userId messageId db)
           | PUT_message messageId content \<Rightarrow>
               catchAsync (env_development env) (put_message env userId messageId content db)
           | DELETE_message messageId \<Rightarrow>
               catchAsync (env_development env) (delete_message env userId messageId db)
           | POST_message_reactions messageId emoji action \<Rightarrow>
               catchAsync (env_development env) (post_reaction env userId messageId emoji action db)
           | POST_message_pin messageId \<Rightarrow>
               catchAsync (env_development env) (post_pin env userId messageId db)
           | GET_message_replies messageId \<Rightarrow>
               catchAsync (env_development env) (get_replies userId messageId db)
           | GET_messages_unread_count \<Rightarrow>
               catchAsync (env_development env) (get_unread_count userId db)
           | GET_messages_search project \<Rightarrow>
               catchAsync (env_development env) (search_messages userId project db)))"








section \<open>The notification routes\<close>

text \<open>
  The routes of \<^verbatim>\<open>routes/notification.js\<close> whose handlers the source gives; the file ends inside
  the declaration of \<^verbatim>\<open>PUT /api/notifications/:id/unread\<close>, of which it has the path and the
  first validator only. The filters and the page of the list select what the payload holds;
  the counts are read from the store.
\<close>

definition get_notifications :: "ObjectId \<Rightarrow> db \<Rightarrow> (thrown + response) \<times> db" where
  "get_notifications userId db =
     (Inr (res_json 200 [(''success'', JBool True), (''data'', JData)]), db)"

definition get_notifications_unread_count :: "ObjectId \<Rightarrow> db \<Rightarrow> (thrown + response) \<times> db" where
  "get_notifications_unread_count userId db =
     (Inr (res_json 200 [(''success'', JBool True), (''data'', JData)]), db)"

definition get_notifications_unread_count_project ::
  "ObjectId \<Rightarrow> ObjectId \<Rightarrow> db \<Rightarrow> (thrown + response) \<times> db" where
  "get_notifications_unread_count_project userId projectId db =
     (Inr (res_json 200 [(''success'', JBool True), (''data'', JData)]), db)"

text \<open>
  \<^verbatim>\<open>await notification.markAsRead()\<close> on the store: the document is written when the method
  called \<^verbatim>\<open>this.save()\<close>.
\<close>

definition notification_markAsRead :: "Date \<Rightarrow> notification \<Rightarrow> db \<Rightarrow> db" where
  "notification_markAsRead now n db =
     (case markAsRead now n of
        (n', saved) \<Rightarrow>
          if saved
          then db\<lparr>db_notifications := write_doc notification_id n' (db_notifications db)\<rparr>
          else db)"

definition get_notification :: "env \<Rightarrow> ObjectId \<Rightarrow> ObjectId \<Rightarrow> db \<Rightarrow> (thrown + response) \<times> db" where
  "get_notification env userId notificationId db =
     (case findById notification_id notificationId (db_notifications db) of
        None \<Rightarrow> (Inl (AppError ''Notification not found'' 404), db)
      | Some notification \<Rightarrow>
          if notification_recipient notification \<noteq> userId
          then (Inl (AppError ''Access denied - not your notification'' 403), db)
          else (Inr (res_json 200 [(''success'', JBool True), (''data'', JData)]),
                if \<not> notification_isRead notification
                then notification_markAsRead (env_now env) notification db
                else db))"

definition put_notification_read ::
  "env \<Rightarrow> ObjectId \<Rightarrow> ObjectId \<Rightarrow> db \<Rightarrow> (thrown + response) \<times> db" where
  "put_notification_read env userId notificationId db =
     (case findById notification_id notificationId (db_notifications db) of
        None \<Rightarrow> (Inl (AppError ''Notification not found'' 404), db)
      | Some notification \<Rightarrow>
          if notification_recipient notification \<noteq> userId
          then (Inl (AppError ''Access denied - not your notification'' 403), db)
          else (Inr (res_json 200
                  [(''success'', JBool True),
                   (''message'', JString ''Notification marked as read''),
                   (''data'', JData)]),
                notification_markAsRead (env_now env) notification db))"

subsection \<open>The router\<close>

text \<open>
  Each route is the chain validators, \<^verbatim>\<open>handleValidationErrors\<close>, \<^verbatim>\<open>catchAsync(handler)\<close>;
  \<^verbatim>\<open>/unread/count\<close> has no validators and no \<^verbatim>\<open>handleValidationErrors\<close>. The routes with a
  fixed path are declared before \<^verbatim>\<open>/:id\<close>.
\<close>

datatype notification_request =
    GET_notifications
  | GET_notifications_unread_count
  | GET_notifications_unread_count_project ObjectId
  | GET_notification ObjectId
  | PUT_notification_read ObjectId

definition validationResult_notification ::
  "validation_error list \<Rightarrow> notification_request \<Rightarrow> validation_error list" where
  "validationResult_notification errors req =
     (case req of
        GET_notifications_unread_count \<Rightarrow> []
      | _ \<Rightarrow> errors)"

definition notification_router ::
  "env \<Rightarrow> ObjectId \<Rightarrow> validation_error list \<Rightarrow> notification_request \<Rightarrow> db \<Rightarrow> response \<times> db" where
  "notification_router env userId errors req db =
     (case handleValidationErrors (validationResult_notification errors req) of
        Some res \<Rightarrow> (res, db)
      | None \<Rightarrow>
          catchAsync (env_development env)
            (case req of
               GET_notifications \<Rightarrow> get_notifications userId db
             | GET_notifications_unread_count \<Rightarrow> get_notifications_unread_count userId db
             | GET_notifications_unread_count_project projectId \<Rightarrow>
                 get_notifications_unread_count_project userId projectId db
             | GET_notification notificationId \<Rightarrow> get_notification env userId notificationId db
             | PUT_notification_read notificationId \<Rightarrow>
                 put_notification_read env userId notificationId db))"
section \<open>Authentication\<close>

subsection \<open>The middleware authenticateToken\<close>

text \<open>
  \<^verbatim>\<open>authHeader && authHeader.split(' ')[1]\<close>, and \<^verbatim>\<open>!token\<close>: the token is the second of the
  pieces of the header between single spaces, when the header has one and it is not empty.
\<close>

fun split_space :: "string \<Rightarrow> string list" where
  "split_space [] = [[]]"
| "split_space (c # cs) =
     (if c = CHR '' '' then [] # split_space cs
      else (case split_space cs of
              [] \<Rightarrow> [[c]]
            | piece # pieces \<Rightarrow> (c # piece) # pieces))"

definition bearer_token :: "string option \<Rightarrow> string option" where
  "bearer_token authHeader =
     (case authHeader of
        None \<Rightarrow> None
      | Some header \<Rightarrow>
          if header = [] then None
          else (case split_space header of
                  scheme # token # rest \<Rightarrow> if token = [] then None else Some token
                | _ \<Rightarrow> None))"

text \<open>
  What \<^verbatim>\<open>jwt.verify\<close> of the jsonwebtoken library does with a token: it returns the payload
  or throws; \<open>Jwt_other\<close> is an error whose name is neither \<^verbatim>\<open>JsonWebTokenError\<close> nor
  \<^verbatim>\<open>TokenExpiredError\<close>.
\<close>

record jwt_payload =
  payload_userId :: ObjectId
  payload_type :: "string option"

datatype jwt_result = Decoded jwt_payload | Jwt_JsonWebTokenError | Jwt_TokenExpiredError | Jwt_other

text \<open>
  What the authentication routes take from their surroundings. The libraries:
  \<^verbatim>\<open>jwt.verify\<close> with the access secret and with the refresh secret,
  \<^verbatim>\<open>crypto.randomBytes(32).toString('hex')\<close>, and the SHA-256 digest (the tokens \<^verbatim>\<open>jwt.sign\<close>
  issues go into the response's payload, which is opaque here). The User model, which is not
  among the sources: \<^verbatim>\<open>new User({name, email, password, emailVerificationToken})\<close> with the id
  it gets, the hooks \<^verbatim>\<open>user.save()\<close> runs on the document, and \<^verbatim>\<open>user.comparePassword\<close>.
\<close>

record auth_env =
  auth_development :: bool
  auth_now :: Date
  jwt_verify :: "string \<Rightarrow> jwt_result"
  jwt_verify_refresh :: "string \<Rightarrow> jwt_result"
  randomBytes_hex :: string
  sha256_hex :: "string \<Rightarrow> string"
  new_User :: "string \<Rightarrow> string \<Rightarrow> string \<Rightarrow> string \<Rightarrow> user"
  User_pre_save :: "user \<Rightarrow> user"
  comparePassword :: "user \<Rightarrow> string \<Rightarrow> bool"

definition user_save :: "auth_env \<Rightarrow> user \<Rightarrow> db \<Rightarrow> db" where
  "user_save env u db = db\<lparr>db_users := write_doc user_id (User_pre_save env u) (db_users db)\<rparr>"

definition unauthorized :: "string \<Rightarrow> response" where
  "unauthorized msg = res_json 401 [(''success'', JBool False), (''message'', JString msg)]"

text \<open>\<^verbatim>\<open>authenticateToken\<close>: it answers by itself (\<open>Inl\<close>) or calls \<^verbatim>\<open>next()\<close> with \<^verbatim>\<open>req.user\<close> set.\<close>

definition authenticateToken :: "auth_env \<Rightarrow> string option \<Rightarrow> db \<Rightarrow> response + user" where
  "authenticateToken env authHeader db =
     (case bearer_token authHeader of
        None \<Rightarrow> Inl (unauthorized ''Access token is required'')
      | Some token \<Rightarrow>
          (case jwt_verify env token of
             Decoded decoded \<Rightarrow>
               (case findById user_id (payload_userId decoded) (db_users db) of
                  None \<Rightarrow> Inl (unauthorized ''Invalid token - user not found'')
                | Some user \<Rightarrow>
                    if \<not> user_isActive user then Inl (unauthorized ''Account is deactivated'')
                    else Inr user)
           | Jwt_JsonWebTokenError \<Rightarrow> Inl (unauthorized ''Invalid token'')
           | Jwt_TokenExpiredError \<Rightarrow> Inl (unauthorized ''Token expired'')
           | Jwt_other \<Rightarrow>
               Inl (res_json 500
                      [(''success'', JBool False), (''message'', JString ''Internal server error'')])))"

text \<open>
  \<^verbatim>\<open>verifyRefreshToken\<close>: the payload, or the error it rethrows; in the refresh route every
  error ends in the same \<^verbatim>\<open>catch\<close>, so \<open>None\<close> stands for all of them.
\<close>

definition verifyRefreshToken :: "auth_env \<Rightarrow> string \<Rightarrow> jwt_payload option" where
  "verifyRefreshToken env token =
     (case jwt_verify_refresh env token of
        Decoded decoded \<Rightarrow> if payload_type decoded \<noteq> Some ''refresh'' then None else Some decoded
      | _ \<Rightarrow> None)"

subsection \<open>The rate limiter authRateLimit\<close>

text \<open>
  \<^verbatim>\<open>authRateLimit(maxAttempts, windowMs)\<close> keeps a \<^verbatim>\<open>Map\<close> from \<^verbatim>\<open>req.ip + (req.body.email || '')\<close>
  to a count and a timestamp, one map for each route that uses it. It answers 429 by itself
  or calls \<^verbatim>\<open>next()\<close>.
\<close>

type_synonym attempts = "(string \<times> nat \<times> Date) list"

definition authRateLimit ::
  "nat \<Rightarrow> int \<Rightarrow> Date \<Rightarrow> string \<Rightarrow> attempts \<Rightarrow> response option \<times> attempts" where
  "authRateLimit maxAttempts windowMs now key attempts =
     (let kept = filter (\<lambda>(k, count, timestamp). \<not> (now - timestamp > windowMs)) attempts
      in case map_of kept key of
           Some (count, timestamp) \<Rightarrow>
             if count \<ge> maxAttempts
             then (Some (res_json 429
                     [(''success'', JBool False),
                      (''message'', JString ''Too many attempts. Please try again later.''),
                      (''retryAfter'', JNumber (- ((- (timestamp + windowMs - now)) div 1000)))]),
                   kept)
             else (None, map (\<lambda>(k, c, t). if k = key then (k, c + 1, now) else (k, c, t)) kept)
         | None \<Rightarrow> (None, kept @ [(key, 1, now)]))"

subsection \<open>The handlers of the authentication routes\<close>

definition register_handler ::
  "auth_env \<Rightarrow> string \<Rightarrow> string \<Rightarrow> string \<Rightarrow> db \<Rightarrow> (thrown + response) \<times> db" where
  "register_handler env name email password db =
     (case find (\<lambda>u. user_email u = email) (db_users db) of
        Some existingUser \<Rightarrow> (Inl (AppError ''User with this email already exists'' 400), db)
      | None \<Rightarrow>
          (Inr (res_json 201
             [(''success'', JBool True),
              (''message'', JString ''User registered successfully''),
              (''data'', JData)]),
           user_save env (new_User env name email password (randomBytes_hex env)) db))"

definition login_handler :: "auth_env \<Rightarrow> string \<Rightarrow> string \<Rightarrow> db \<Rightarrow> (thrown + response) \<times> db" where
  "login_handler env email password db =
     (case find (\<lambda>u. user_email u = email) (db_users db) of
        None \<Rightarrow> (Inl (AppError ''Invalid email or password'' 401), db)
      | Some user \<Rightarrow>
          if \<not> user_isActive user
          then (Inl (AppError ''Account is deactivated. Please contact support.'' 401), db)
          else if \<not> comparePassword env user password
          then (Inl (AppError ''Invalid email or password'' 401), db)
          else (Inr (res_json 200
                  [(''success'', JBool True),
                   (''message'', JString ''Login successful''),
                   (''data'', JData)]),
                user_save env (user\<lparr>user_lastLogin := Some (auth_now env)\<rparr>) db))"

definition refresh_handler :: "auth_env \<Rightarrow> string option \<Rightarrow> db \<Rightarrow> (thrown + response) \<times> db" where
  "refresh_handler env refreshToken db =
     (case refreshToken of
        None \<Rightarrow> (Inl (AppError ''Refresh token is required'' 401), db)
      | Some token \<Rightarrow>
          if token = [] then (Inl (AppError ''Refresh token is required'' 401), db)
          else
            (case verifyRefreshToken env token of
               None \<Rightarrow> (Inl (AppError ''Invalid or expired refresh token'' 401), db)
             | Some decoded \<Rightarrow>
                 (case findById user_id (payload_userId decoded) (db_users db) of
                    None \<Rightarrow> (Inl (AppError ''Invalid or expired refresh token'' 401), db)
                  | Some user \<Rightarrow>
                      if \<not> user_isActive user
                      then (Inl (AppError ''Invalid or expired refresh token'' 401), db)
                      else (Inr (res_json 200
                              [(''success'', JBool True),
                               (''message'', JString ''Token refreshed successfully''),
                               (''data'', JData)]), db))))"

definition logout_handler :: "db \<Rightarrow> (thrown + response) \<times> db" where
  "logout_handler db =
     (Inr (res_json 200 [(''success'', JBool True), (''message'', JString ''Logout successful'')]), db)"

definition forgot_password_handler :: "auth_env \<Rightarrow> string \<Rightarrow> db \<Rightarrow> (thrown + response) \<times> db" where
  "forgot_password_handler env email db =
     (case find (\<lambda>u. user_email u = email) (db_users db) of
        None \<Rightarrow>
          (Inr (res_json 200
             [(''success'', JBool True),
              (''message'', JString
                 ''If an account with that email exists, we have sent a password reset link.'')]), db)
      | Some user \<Rightarrow>
          (let resetToken = randomBytes_hex env
           in (Inr (res_json 200
                 ([(''success'', JBool True),
                   (''message'', JString ''Password reset email sent successfully'')]
                  @ (if auth_development env then [(''resetToken'', JString resetToken)] else []))),
               user_save env
                 (user\<lparr>user_resetPasswordToken := Some (sha256_hex env resetToken),
                       user_resetPasswordExpire := Some (auth_now env + 10 * 60 * 1000)\<rparr>) db)))"

definition reset_password_handler ::
  "auth_env \<Rightarrow> string \<Rightarrow> string \<Rightarrow> db \<Rightarrow> (thrown + response) \<times> db" where
  "reset_password_handler env token password db =
     (case find (\<lambda>u. user_resetPasswordToken u = Some (sha256_hex env token)
                     \<and> (case user_resetPasswordExpire u of
                           Some expire \<Rightarrow> expire > auth_now env
                         | None \<Rightarrow> False))
             (db_users db) of
        None \<Rightarrow> (Inl (AppError ''Invalid or expired reset token'' 400), db)
      | Some user \<Rightarrow>
          (Inr (res_json 200
             [(''success'', JBool True),
              (''message'', JString ''Password reset successful''),
              (''data'', JData)]),
           user_save env
             (user\<lparr>user_password := password, user_resetPasswordToken := None,
                   user_resetPasswordExpire := None\<rparr>) db))"

definition change_password_handler ::
  "auth_env \<Rightarrow> user \<Rightarrow> string \<Rightarrow> string \<Rightarrow> db \<Rightarrow> (thrown + response) \<times> db" where
  "change_password_handler env req_user currentPassword newPassword db =
     (case findById user_id (user_id req_user) (db_users db) of
        None \<Rightarrow> (Inl (Error ''Cannot read properties of null''), db)
      | Some user \<Rightarrow>
          if \<not> comparePassword env user currentPassword
          then (Inl (AppError ''Current password is incorrect'' 400), db)
          else if comparePassword env user newPassword
          then (Inl (AppError ''New password must be different from current password'' 400), db)
          else (Inr (res_json 200
                  [(''success'', JBool True),
                   (''message'', JString ''Password changed successfully'')]),
                user_save env (user\<lparr>user_password := newPassword\<rparr>) db))"

definition me_handler :: "db \<Rightarrow> (thrown + response) \<times> db" where
  "me_handler db = (Inr (res_json 200 [(''success'', JBool True), (''data'', JData)]), db)"

definition verify_email_handler ::
  "auth_env \<Rightarrow> user \<Rightarrow> string option \<Rightarrow> db \<Rightarrow> (thrown + response) \<times> db" where
  "verify_email_handler env req_user token db =
     (if token = None \<or> token = Some []
      then (Inl (AppError ''Verification token is required'' 400), db)
      else
        (case find (\<lambda>u. user_id u = user_id req_user \<and> user_emailVerificationToken u = token)
                (db_users db) of
           None \<Rightarrow> (Inl (AppError ''Invalid verification token'' 400), db)
         | Some user \<Rightarrow>
             (Inr (res_json 200
                [(''success'', JBool True),
                 (''message'', JString ''Email verified successfully'')]),
              user_save env
                (user\<lparr>user_emailVerified := True,
                      user_emailVerifiedAt := Some (auth_now env),
                      user_emailVerificationToken := None\<rparr>) db)))"

subsection \<open>The router\<close>

text \<open>
  The nine routes of \<^verbatim>\<open>routes/auth.js\<close>, each with the middleware the source lists before its
  handler, in that order: \<^verbatim>\<open>authRateLimit\<close>, the validators with \<^verbatim>\<open>handleValidationErrors\<close>,
  \<^verbatim>\<open>authenticateToken\<close>. A request is the \<^verbatim>\<open>Authorization\<close> header, the client's address, the
  validators' errors and the route with its parameters and body.
\<close>

datatype auth_route =
    POST_register string string string
  | POST_login string string
  | POST_refresh "string option"
  | POST_logout
  | POST_forgot_password string
  | POST_reset_password string string
  | POST_change_password string string
  | GET_me
  | POST_verify_email "string option"

record auth_request =
  req_authorization :: "string option"
  req_ip :: string
  req_errors :: "validation_error list"
  req_route :: auth_route

record auth_state =
  state_db :: db
  register_attempts :: attempts
  login_attempts :: attempts
  forgot_password_attempts :: attempts

definition respond :: "auth_env \<Rightarrow> auth_state \<Rightarrow> (thrown + response) \<times> db \<Rightarrow> response \<times> auth_state" where
  "respond env st r =
     (case catchAsync (auth_development env) r of (res, db') \<Rightarrow> (res, st\<lparr>state_db := db'\<rparr>))"

definition auth_router :: "auth_env \<Rightarrow> auth_request \<Rightarrow> auth_state \<Rightarrow> response \<times> auth_state" where
  "auth_router env req st =
     (case req_route req of
        POST_register name email password \<Rightarrow>
          (case authRateLimit 5 (15 * 60 * 1000) (auth_now env) (req_ip req @ email)
                  (register_attempts st) of
             (Some res, attempts') \<Rightarrow> (res, st\<lparr>register_attempts := attempts'\<rparr>)
           | (None, attempts') \<Rightarrow>
               (case handleValidationErrors (req_errors req) of
                  Some res \<Rightarrow> (res, st\<lparr>register_attempts := attempts'\<rparr>)
                | None \<Rightarrow>
                    respond env (st\<lparr>register_attempts := attempts'\<rparr>)
                      (register_handler env name email password (state_db st))))
      | POST_login email password \<Rightarrow>
          (case authRateLimit 5 (15 * 60 * 1000) (auth_now env) (req_ip req @ email)
                  (login_attempts st) of
             (Some res, attempts') \<Rightarrow> (res, st\<lparr>login_attempts := attempts'\<rparr>)
           | (None, attempts') \<Rightarrow>
               (case handleValidationErrors (req_errors req) of
                  Some res \<Rightarrow> (res, st\<lparr>login_attempts := attempts'\<rparr>)
                | None \<Rightarrow>
                    respond env (st\<lparr>login_attempts := attempts'\<rparr>)
                      (login_handler env email password (state_db st))))
      | POST_refresh refreshToken \<Rightarrow>
          respond env st (refresh_handler env refreshToken (state_db st))
      | POST_logout \<Rightarrow>
          (case authenticateToken env (req_authorization req) (state_db st) of
             Inl res \<Rightarrow> (res, st)
           | Inr req_user \<Rightarrow> respond env st (logout_handler (state_db st)))
      | POST_forgot_password email \<Rightarrow>
          (case authRateLimit 3 (15 * 60 * 1000) (auth_now env) (req_ip req @ email)
                  (forgot_password_attempts st) of
             (Some res, attempts') \<Rightarrow> (res, st\<lparr>forgot_password_attempts := attempts'\<rparr>)
           | (None, attempts') \<Rightarrow>
               (case handleValidationErrors (req_errors req) of
                  Some res \<Rightarrow> (res, st\<lparr>forgot_password_attempts := attempts'\<rparr>)
                | None \<Rightarrow>
                    respond env (st\<lparr>forgot_password_attempts := attempts'\<rparr>)
                      (forgot_password_handler env email (state_db st))))
      | POST_reset_password token password \<Rightarrow>
          (case handleValidationErrors (req_errors req) of
             Some res \<Rightarrow> (res, st)
           | None \<Rightarrow> respond env st (reset_password_handler env token password (state_db st)))
      | POST_change_password currentPassword newPassword \<Rightarrow>
          (case authenticateToken env (req_authorization req) (state_db st) of
             Inl res \<Rightarrow> (res, st)
           | Inr req_user \<Rightarrow>
               (case handleValidationErrors (req_errors req) of
                  Some res \<Rightarrow> (res, st)
                | None \<Rightarrow>
                    respond env st
                      (change_password_handler env req_user currentPassword newPassword (state_db st))))
      | GET_me \<Rightarrow>
          (case authenticateToken env (req_authorization req) (state_db st) of
             Inl res \<Rightarrow> (res, st)
           | Inr req_user \<Rightarrow> respond env st (me_handler (state_db st)))
      | POST_verify_email token \<Rightarrow>
          (case authenticateToken env (req_authorization req) (state_db st) of
             Inl res \<Rightarrow> (res, st)
           | Inr req_user \<Rightarrow> respond env st (verify_email_handler env req_user token (state_db st))))"

text \<open>The routes whose chain has \<^verbatim>\<open>authenticateToken\<close>.\<close>

definition protected_route :: "auth_route \<Rightarrow> bool" where
  "protected_route r =
     (case r of
        POST_logout \<Rightarrow> True
      | POST_change_password currentPassword newPassword \<Rightarrow> True
      | GET_me \<Rightarrow> True
      | POST_verify_email token \<Rightarrow> True
      | _ \<Rightarrow> False)"

section \<open>The placeholder project and user controllers\<close>

text \<open>
  \<^verbatim>\<open>routes/projects.js\<close> and the user routes answer every request with a fixed message; the
  argument of a route with \<^verbatim>\<open>:id\<close> is \<^verbatim>\<open>req.params.id\<close>.
\<close>

datatype project_route =
  GET_projects | GET_project string | POST_project | PUT_project string | DELETE_project string

definition projectController :: "project_route \<Rightarrow> response" where
  "projectController r =
     (case r of
        GET_projects \<Rightarrow> res_json 200 [(''message'', JString ''Get all projects'')]
      | GET_project i \<Rightarrow> res_json 200 [(''message'', JString (''Get project by ID: '' @ i))]
      | POST_project \<Rightarrow> res_json 201 [(''message'', JString ''Create new project'')]
      | PUT_project i \<Rightarrow> res_json 200 [(''message'', JString (''Update project by ID: '' @ i))]
      | DELETE_project i \<Rightarrow> res_json 200 [(''message'', JString (''Delete project by ID: '' @ i))])"

datatype user_route = GET_users | GET_user string | PUT_user string | DELETE_user string

definition userController :: "user_route \<Rightarrow> response" where
  "userController r =
     (case r of
        GET_users \<Rightarrow> res_json 200 [(''message'', JString ''Get all users'')]
      | GET_user i \<Rightarrow> res_json 200 [(''message'', JString (''Get user by ID: '' @ i))]
      | PUT_user i \<Rightarrow> res_json 200 [(''message'', JString (''Update user by ID: '' @ i))]
      | DELETE_user i \<Rightarrow> res_json 200 [(''message'', JString (''Delete user by ID: '' @ i))])"

section \<open>The application\<close>

text \<open>
  \<^verbatim>\<open>server.js\<close>, from \<^verbatim>\<open>app.get('/api/health', ...)\<close> on, for a request that the middleware
  mounted before it (helmet, compression, the rate limiter, cors, the body parsers, morgan)
  has passed on. The health check comes first; the authentication router is mounted by
  itself; the five other routers are mounted behind \<^verbatim>\<open>authenticateToken\<close>; a path under none
  of the mounts ends in the 404 handler.

  The values of \<^verbatim>\<open>timestamp\<close> and \<^verbatim>\<open>uptime\<close> in the health check come from the process and
  are opaque.
\<close>

record app_env =
  app_auth :: auth_env
  app_new_id :: ObjectId
  app_regex :: "string \<Rightarrow> string \<Rightarrow> bool"

definition route_env :: "app_env \<Rightarrow> env" where
  "route_env e =
     \<lparr>env_development = auth_development (app_auth e), env_now = auth_now (app_auth e),
      env_new_id = app_new_id e, env_regex = app_regex e\<rparr>"

datatype api_route =
    GET_health
  | Api_auth auth_route
  | Api_users user_route
  | Api_projects project_route
  | Api_tasks task_request
  | Api_messages message_request
  | Api_notifications notification_request
  | No_endpoint

record api_request =
  api_authorization :: "string option"
  api_ip :: string
  api_errors :: "validation_error list"
  api_route :: api_route

text \<open>\<^verbatim>\<open>app.use(path, authenticateToken, router)\<close>: the router runs with \<^verbatim>\<open>req.user\<close> or not at all.\<close>

definition behind_authenticateToken ::
  "auth_env \<Rightarrow> string option \<Rightarrow> auth_state \<Rightarrow> (user \<Rightarrow> response \<times> db) \<Rightarrow> response \<times> auth_state" where
  "behind_authenticateToken env authHeader st router =
     (case authenticateToken env authHeader (state_db st) of
        Inl res \<Rightarrow> (res, st)
      | Inr req_user \<Rightarrow> (case router req_user of (res, db') \<Rightarrow> (res, st\<lparr>state_db := db'\<rparr>)))"

definition app :: "app_env \<Rightarrow> api_request \<Rightarrow> auth_state \<Rightarrow> response \<times> auth_state" where
  "app e req st =
     (case api_route req of
        GET_health \<Rightarrow>
          (res_json 200
             [(''status'', JString ''OK''),
              (''message'', JString ''SynergySphere API is running''),
              (''timestamp'', JData),
              (''uptime'', JData)], st)
      | Api_auth r \<Rightarrow>
          auth_router (app_auth e)
            \<lparr>req_authorization = api_authorization req, req_ip = api_ip req,
             req_errors = api_errors req, req_route = r\<rparr> st
      | Api_users r \<Rightarrow>
          behind_authenticateToken (app_auth e) (api_authorization req) st
            (\<lambda>req_user. (userController r, state_db st))
      | Api_projects r \<Rightarrow>
          behind_authenticateToken (app_auth e) (api_authorization req) st
            (\<lambda>req_user. (projectController r, state_db st))
      | Api_tasks r \<Rightarrow>
          behind_authenticateToken (app_auth e) (api_authorization req) st
            (\<lambda>req_user. task_router (route_env e) (user_id req_user) (api_errors req) r (state_db st))
      | Api_messages r \<Rightarrow>
          behind_authenticateToken (app_auth e) (api_authorization req) st
            (\<lambda>req_user. message_router (route_env e) (user_id req_user) (api_errors req) r (state_db st))
      | Api_notifications r \<Rightarrow>
          behind_authenticateToken (app_auth e) (api_authorization req) st
            (\<lambda>req_user.
               notification_router (route_env e) (user_id req_user) (api_errors req) r (state_db st))
      | No_endpoint \<Rightarrow>
          (res_json 404
             [(''success'', JBool False), (''message'', JString ''API endpoint not found'')], st))"

text \<open>The routes with \<^verbatim>\<open>authenticateToken\<close> before their handler, at the mount or in the chain.\<close>

definition needs_token :: "api_route \<Rightarrow> bool" where
  "needs_token r =
     (case r of
        GET_health \<Rightarrow> False
      | Api_auth a \<Rightarrow> protected_route a
      | No_endpoint \<Rightarrow> False
      | _ \<Rightarrow> True)"

section \<open>The shape of a response\<close>




section \<open>Concrete documents\<close>

text \<open>
  A small store for the concrete cases below. Project 10 belongs to user 1; user 2 is a member
  with the default permissions of the role \<^verbatim>\<open>member\<close>, user 3 a member with those of the role
  \<^verbatim>\<open>viewer\<close>. User 4 is no longer a member, but still the assignee of task 100 and the author
  of message 200; user 5 has nothing to do with the project.
\<close>

definition example_notification :: notification where
  "example_notification =
     \<lparr>notification_id = 300, notification_recipient = 1, notification_sender = Some 2, notification_type = TaskAssigned,
      notification_project = Some 10, notification_task = Some 100, notification_message = None,
      notification_isRead = False, notification_readAt = None, notification_priority = Medium,
      notification_expiresAt = None,
      notification_channels = \<lparr>channel_inApp = True, channel_email = False, channel_push = False\<rparr>\<rparr>"

definition example_user :: "ObjectId \<Rightarrow> string \<Rightarrow> user" where
  "example_user i mail =
     \<lparr>user_id = i, user_email = mail, user_password = ''hash'', user_isActive = True,
      user_lastLogin = None, user_resetPasswordToken = None, user_resetPasswordExpire = None,
      user_emailVerificationToken = None, user_emailVerified = True, user_emailVerifiedAt = None,
      user_notifications_email = True, user_notifications_push = False\<rparr>"

definition empty_project :: project where
  "empty_project =
     \<lparr>project_id = 10, project_owner = 1, project_members = [],
      project_progress = \<lparr>totalTasks = 0, completedTasks = 0, percentage = 0\<rparr>,
      project_statistics = \<lparr>totalMessages = 1, lastActivity = 0\<rparr>\<rparr>"

definition example_project :: project where
  "example_project =
     empty_project
       \<lparr>project_members :=
          [\<lparr>member_user = 2, member_role = RoleMember,
            member_permissions =
              \<lparr>canCreateTasks = True, canEditTasks = True, canDeleteTasks = False,
               canManageMembers = False, canEditProject = False\<rparr>\<rparr>,
           \<lparr>member_user = 3, member_role = RoleViewer,
            member_permissions =
              \<lparr>canCreateTasks = False, canEditTasks = False, canDeleteTasks = False,
               canManageMembers = False, canEditProject = False\<rparr>\<rparr>]\<rparr>"

definition example_task :: task where
  "example_task =
     \<lparr>task_id = 100, task_title = ''Write the report'', task_description = '''',
      task_project = 10, task_assignee = Some 4, task_creator = 1, task_status = Todo,
      task_priority = Medium, task_dueDate = None, task_completedAt = None,
      task_actualHours = None, task_progress = 0, task_dependencies = [],
      task_subtasks = [], task_comments = [], task_watchers = [2], task_activity = []\<rparr>"

definition dependent_task :: task where
  "dependent_task =
     example_task
       \<lparr>task_id := 101, task_assignee := None, task_status := Completed,
        task_completedAt := Some 3,
        task_dependencies :=
          [\<lparr>dependency_task = 100, dependency_type = BlockedBy\<rparr>,
           \<lparr>dependency_task = 102, dependency_type = RelatesTo\<rparr>],
        task_watchers := []\<rparr>"

definition example_message :: message where
  "example_message =
     \<lparr>message_id = 200, message_content = ''Hello'', message_project = 10, message_author = 4,
      message_parentMessage = None, message_mentions = [],
      message_reactions = [\<lparr>reaction_emoji = ''+1'', reaction_users = [2], reaction_count = 1\<rparr>],
      message_isEdited = False, message_editedAt = None, message_editHistory = [],
      message_isDeleted = False, message_deletedAt = None,
      message_readBy = [\<lparr>read_user = 4, read_readAt = 1\<rparr>],
      message_isPinned = False, message_pinnedAt = None, message_pinnedBy = None,
      message_createdAt = 1\<rparr>"

definition example_db :: db where
  "example_db =
     \<lparr>db_users = [example_user 1 ''ann@example.org'', example_user 2 ''bob@example.org'',
                  example_user 3 ''cy@example.org'', example_user 4 ''dee@example.org'',
                  example_user 5 ''eve@example.org''],
      db_projects = [example_project],
      db_tasks = [example_task, dependent_task],
      db_messages = [example_message],
      db_notifications = []\<rparr>"




text \<open>A project of forty tasks, the first twenty-three of them completed.\<close>

definition forty_tasks :: db where
  "forty_tasks =
     example_db
       \<lparr>db_tasks :=
          map (\<lambda>i. example_task\<lparr>task_id := i, task_assignee := None, task_watchers := [],
                                  task_status := (if i < 23 then Completed else Todo)\<rparr>)
              [0..<40]\<rparr>"



definition task_39 :: task where
  "task_39 = example_task\<lparr>task_id := 39, task_assignee := None, task_watchers := [5]\<rparr>"

text \<open>
  Surroundings and a state for the authentication routes: the access token \<^verbatim>\<open>access-1\<close> and the
  refresh token \<^verbatim>\<open>refresh-1\<close> are user 1's, the token \<^verbatim>\<open>old\<close> has expired, and user 1 has asked
  for a password reset with the token \<^verbatim>\<open>tok\<close>.
\<close>

definition example_auth_env :: auth_env where
  "example_auth_env =
     \<lparr>auth_development = False, auth_now = 1000,
      jwt_verify =
        (\<lambda>token. if token = ''access-1'' then Decoded \<lparr>payload_userId = 1, payload_type = None\<rparr>
                 else if token = ''old'' then Jwt_TokenExpiredError
                 else Jwt_JsonWebTokenError),
      jwt_verify_refresh =
        (\<lambda>token. if token = ''refresh-1''
                 then Decoded \<lparr>payload_userId = 1, payload_type = Some ''refresh''\<rparr>
                 else Jwt_JsonWebTokenError),
      randomBytes_hex = ''c0ffee'',
      sha256_hex = (\<lambda>s. ''sha256:'' @ s),
      new_User = (\<lambda>name mail password token.
                    (example_user 99 mail)
                      \<lparr>user_password := password, user_emailVerified := False,
                       user_emailVerificationToken := Some token\<rparr>),
      User_pre_save = (\<lambda>u. u),
      comparePassword = (\<lambda>u candidate. user_password u = candidate)\<rparr>"

definition example_auth_state :: auth_state where
  "example_auth_state =
     \<lparr>state_db =
        example_db
          \<lparr>db_users :=
             [(example_user 1 ''ann@example.org'')
                \<lparr>user_resetPasswordToken := Some ''sha256:tok'',
                 user_resetPasswordExpire := Some 2000\<rparr>,
              example_user 2 ''bob@example.org'']\<rparr>,
      register_attempts = [], login_attempts = [], forgot_password_attempts = []\<rparr>"

definition example_request :: "string option \<Rightarrow> auth_route \<Rightarrow> auth_request" where
  "example_request header route =
     \<lparr>req_authorization = header, req_ip = ''10.0.0.1'', req_errors = [], req_route = route\<rparr>"


text \<open>The application around them, and a request to it from the same address.\<close>

definition example_app_env :: app_env where
  "example_app_env =
     \<lparr>app_auth = example_auth_env, app_new_id = 900, app_regex = (\<lambda>pattern s. False)\<rparr>"

definition example_api_request :: "string option \<Rightarrow> api_route \<Rightarrow> api_request" where
  "example_api_request header route =
     \<lparr>api_authorization = header, api_ip = ''10.0.0.1'', api_errors = [], api_route = route\<rparr>"
section \<open>Helper lemmas\<close>

subsection \<open>Lists\<close>

lemma find_Some_mem: "find P xs = Some r \<Longrightarrow> r \<in> set xs \<and> P r"
  by (induction xs) (auto split: if_splits)

lemma find_append_None:
  "find P xs = None \<Longrightarrow> find P (xs @ [y]) = (if P y then Some y else None)"
  by (induction xs) (auto split: if_splits)

lemma find_append_neq: "\<not> Q y \<Longrightarrow> find Q (xs @ [y]) = find Q xs"
  by (induction xs) auto

lemma find_update_first:
  assumes "\<And>x. P x \<Longrightarrow> P (f x)"
  shows "find P (update_first P f xs) = map_option f (find P xs)"
  using assms by (induction xs) auto

lemma find_update_first_neq:
  assumes "\<And>x. P x \<Longrightarrow> \<not> Q x" and "\<And>x. P x \<Longrightarrow> \<not> Q (f x)"
  shows "find Q (update_first P f xs) = find Q xs"
  using assms by (induction xs) auto

lemma filter_not_update_first:
  assumes "\<And>x. P x \<Longrightarrow> P (f x)"
  shows "filter (\<lambda>x. \<not> P x) (update_first P f xs) = filter (\<lambda>x. \<not> P x) xs"
  using assms by (induction xs) auto

lemma list_all_update_first:
  assumes "list_all Q xs" and "find P xs = Some r" and "Q (f r)"
  shows "list_all Q (update_first P f xs)"
  using assms by (induction xs) (auto split: if_splits)

subsection \<open>The store\<close>

lemma findById_write_doc: "findById key (key d) (write_doc key d docs) = Some d"
proof (cases "findById key (key d) docs")
  case None
  then show ?thesis by (simp add: write_doc_def findById_def find_append_None)
next
  case (Some a)
  then show ?thesis by (simp add: write_doc_def findById_def find_update_first)
qed

lemma findById_write_doc_other:
  "key d \<noteq> i \<Longrightarrow> findById key i (write_doc key d docs) = findById key i docs"
  by (auto simp add: write_doc_def findById_def find_append_neq intro!: find_update_first_neq)

lemma findById_key: "findById key i docs = Some d \<Longrightarrow> key d = i"
  by (auto simp add: findById_def dest: find_Some_mem)

lemma findById_mem: "findById key i docs = Some d \<Longrightarrow> d \<in> set docs"
  by (auto simp add: findById_def dest: find_Some_mem)

lemma findById_delete_doc:
  "distinct (map key docs) \<Longrightarrow> findById key i (delete_doc key i docs) = None"
proof (induction docs)
  case Nil
  then show ?case by (simp add: findById_def)
next
  case (Cons d docs)
  show ?case
  proof (cases "key d = i")
    case True
    with Cons.prems have "i \<notin> key ` set docs" by auto
    then have "find (\<lambda>d. key d = i) docs = None"
      by (auto simp add: find_None_iff)
    with True show ?thesis by (simp add: findById_def)
  next
    case False
    with Cons show ?thesis by (simp add: findById_def)
  qed
qed

lemma set_delete_doc: "set (delete_doc key i docs) \<subseteq> set docs"
  by (induction docs) auto

subsection \<open>JavaScript numbers and the percentage\<close>





subsection \<open>Saving a project and a task\<close>

lemma updateProgress_stored:
  "\<exists>p'. findById project_id (project_id p) (db_projects (updateProgress now p db)) = Some p'
     \<and> project_id p' = project_id p
     \<and> project_owner p' = project_owner p
     \<and> project_members p' = project_members p
     \<and> totalTasks (project_progress p') = length (tasks_of_project (project_id p) db)
     \<and> completedTasks (project_progress p') =
           length (filter (\<lambda>task. task_status task = Completed) (tasks_of_project (project_id p) db))
     \<and> percentage (project_progress p') = progress_percentage (project_progress p')"
proof -
  obtain q where q: "db_projects (updateProgress now p db) = write_doc project_id q (db_projects db)"
    and "project_id q = project_id p" "project_owner q = project_owner p"
    "project_members q = project_members p"
    "totalTasks (project_progress q) = length (tasks_of_project (project_id p) db)"
    "completedTasks (project_progress q) =
           length (filter (\<lambda>task. task_status task = Completed) (tasks_of_project (project_id p) db))"
    "percentage (project_progress q) = progress_percentage (project_progress q)"
    by (simp add: updateProgress_def project_save_def Let_def project_pre_save_def
        progress_percentage_def)
  moreover have "findById project_id (project_id q) (write_doc project_id q (db_projects db)) = Some q"
    by (rule findById_write_doc)
  ultimately show ?thesis by auto
qed

lemma updateProgress_frame:
  "db_tasks (updateProgress now p db) = db_tasks db"
  "db_users (updateProgress now p db) = db_users db"
  "db_messages (updateProgress now p db) = db_messages db"
  "db_notifications (updateProgress now p db) = db_notifications db"
  by (simp_all add: updateProgress_def project_save_def Let_def)

lemma task_post_save_frame:
  "db_tasks (task_post_save now doc db) = db_tasks db"
  "db_users (task_post_save now doc db) = db_users db"
  "db_messages (task_post_save now doc db) = db_messages db"
  "db_notifications (task_post_save now doc db) = db_notifications db"
  by (simp_all add: task_post_save_def updateProgress_frame split: option.splits)

lemma tasks_of_project_cong:
  "db_tasks db = db_tasks db' \<Longrightarrow> tasks_of_project pid db = tasks_of_project pid db'"
  by (simp add: tasks_of_project_def)

text \<open>The document a save returns differs from the one saved in \<^verbatim>\<open>completedAt\<close> at most.\<close>

lemma task_pre_save_fields:
  "task_id (task_pre_save m now t) = task_id t"
  "task_project (task_pre_save m now t) = task_project t"
  "task_status (task_pre_save m now t) = task_status t"
  "task_assignee (task_pre_save m now t) = task_assignee t"
  "task_watchers (task_pre_save m now t) = task_watchers t"
  "task_dependencies (task_pre_save m now t) = task_dependencies t"
  by (simp_all add: task_pre_save_def)

lemma task_save_fst:
  "task_id (fst (task_save now doc db)) = task_id doc"
  "task_project (fst (task_save now doc db)) = task_project doc"
  "task_status (fst (task_save now doc db)) = task_status doc"
  "task_assignee (fst (task_save now doc db)) = task_assignee doc"
  "task_watchers (fst (task_save now doc db)) = task_watchers doc"
  by (simp_all add: task_save_def Let_def task_pre_save_fields)


lemma task_save_tasks:
  "db_tasks (snd (task_save now doc db)) = write_doc task_id (fst (task_save now doc db)) (db_tasks db)"
  by (simp add: task_save_def Let_def task_post_save_frame)

lemma task_save_stored:
  "findById task_id (task_id doc) (db_tasks (snd (task_save now doc db))) = Some (fst (task_save now doc db))"
  using findById_write_doc [of task_id "fst (task_save now doc db)" "db_tasks db"]
  by (simp add: task_save_tasks task_save_fst)

text \<open>
  What every task save leaves behind: the project the task references, when there is one,
  has the counts of its tasks, and the percentage the source's expression gives for them.
\<close>

lemma task_save_progress:
  assumes "findById project_id (task_project doc) (db_projects db) = Some p"
  shows "\<exists>p'. findById project_id (task_project doc) (db_projects (snd (task_save now doc db))) = Some p'
     \<and> project_owner p' = project_owner p
     \<and> project_members p' = project_members p
     \<and> totalTasks (project_progress p') =
           length (tasks_of_project (task_project doc) (snd (task_save now doc db)))
     \<and> completedTasks (project_progress p') =
           length (filter (\<lambda>task. task_status task = Completed)
                     (tasks_of_project (task_project doc) (snd (task_save now doc db))))
     \<and> percentage (project_progress p') = progress_percentage (project_progress p')"
proof -
  define m where "m = (case findById task_id (task_id doc) (db_tasks db) of
               Some stored \<Rightarrow> task_status stored \<noteq> task_status doc
             | None \<Rightarrow> False)"
  define doc' where "doc' = task_pre_save m now doc"
  define db1 where "db1 = db\<lparr>db_tasks := write_doc task_id doc' (db_tasks db)\<rparr>"
  have pid: "project_id p = task_project doc"
    using assms by (rule findById_key)
  have snd: "snd (task_save now doc db) = updateProgress now p db1"
    using assms by (simp add: task_save_def Let_def task_post_save_def m_def doc'_def db1_def
        task_pre_save_fields)
  have tasks: "tasks_of_project (task_project doc) (updateProgress now p db1)
                = tasks_of_project (project_id p) db1"
    by (simp add: pid tasks_of_project_def updateProgress_frame)
  from updateProgress_stored [of p now db1] obtain p' where
    "findById project_id (project_id p) (db_projects (updateProgress now p db1)) = Some p'"
    "project_owner p' = project_owner p" "project_members p' = project_members p"
    "totalTasks (project_progress p') = length (tasks_of_project (project_id p) db1)"
    "completedTasks (project_progress p') =
       length (filter (\<lambda>task. task_status task = Completed) (tasks_of_project (project_id p) db1))"
    "percentage (project_progress p') = progress_percentage (project_progress p')"
    by blast
  then show ?thesis
    by (simp add: snd tasks) (simp add: pid)
qed

subsection \<open>Reactions\<close>

lemma addReaction_ok:
  assumes "reactions_ok m"
  shows "reactions_ok (addReaction e u m)"
proof (cases "find (\<lambda>r. reaction_emoji r = e) (message_reactions m)")
  case None
  with assms show ?thesis
    by (simp add: addReaction_def reactions_ok_def reaction_ok_def)
next
  case (Some r)
  then have "r \<in> set (message_reactions m)" by (simp add: find_Some_mem)
  with assms have ok: "reaction_ok r" by (simp add: reactions_ok_def list_all_iff)
  show ?thesis
  proof (cases "u \<in> set (reaction_users r)")
    case True
    with Some assms show ?thesis by (simp add: addReaction_def)
  next
    case False
    with ok have "reaction_ok (r\<lparr>reaction_users := reaction_users r @ [u], reaction_count := reaction_count r + 1\<rparr>)"
      by (simp add: reaction_ok_def)
    with Some False assms show ?thesis
      by (simp add: addReaction_def reactions_ok_def list_all_update_first)
  qed
qed

lemma removeReaction_ok:
  assumes "reactions_ok m"
  shows "reactions_ok (removeReaction e u m)"
proof (cases "find (\<lambda>r. reaction_emoji r = e) (message_reactions m)")
  case None
  with assms show ?thesis by (simp add: removeReaction_def)
next
  case (Some r)
  then have "r \<in> set (message_reactions m)" by (simp add: find_Some_mem)
  with assms have ok: "reaction_ok r" by (simp add: reactions_ok_def list_all_iff)
  let ?users = "filter (\<lambda>user. user \<noteq> u) (reaction_users r)"
  let ?rs = "update_first (\<lambda>r. reaction_emoji r = e)
               (\<lambda>r. r\<lparr>reaction_users := ?users, reaction_count := length ?users\<rparr>) (message_reactions m)"
  show ?thesis
  proof (cases "?users = []")
    case True
    have "filter (\<lambda>r. reaction_emoji r \<noteq> e) ?rs
            = filter (\<lambda>r. reaction_emoji r \<noteq> e) (message_reactions m)"
      by (rule filter_not_update_first) simp
    with assms have "list_all reaction_ok (filter (\<lambda>r. reaction_emoji r \<noteq> e) ?rs)"
      by (simp add: reactions_ok_def list_all_iff)
    with Some True show ?thesis
      by (simp add: removeReaction_def reactions_ok_def Let_def)
  next
    case False
    with ok have "reaction_ok (r\<lparr>reaction_users := ?users, reaction_count := length ?users\<rparr>)"
      by (simp add: reaction_ok_def)
    with Some assms have "list_all reaction_ok ?rs"
      by (simp add: reactions_ok_def list_all_update_first)
    with Some False show ?thesis
      by (simp add: removeReaction_def reactions_ok_def Let_def)
  qed
qed

lemma addReaction_idem: "addReaction e u (addReaction e u m) = addReaction e u m"
proof (cases "find (\<lambda>r. reaction_emoji r = e) (message_reactions m)")
  case None
  then show ?thesis
    by (simp add: addReaction_def find_append_None)
next
  case (Some r)
  then show ?thesis
    by (cases "u \<in> set (reaction_users r)") (simp_all add: addReaction_def find_update_first)
qed

lemma removeReaction_first:
  assumes "find (\<lambda>r. reaction_emoji r = e) (message_reactions (removeReaction e u m)) = Some r"
  shows "reaction_users r \<noteq> [] \<and> u \<notin> set (reaction_users r) \<and> reaction_count r = length (reaction_users r)"
proof (cases "find (\<lambda>r. reaction_emoji r = e) (message_reactions m)")
  case None
  with assms show ?thesis by (simp add: removeReaction_def)
next
  case (Some r0)
  let ?users = "filter (\<lambda>user. user \<noteq> u) (reaction_users r0)"
  show ?thesis
  proof (cases "?users = []")
    case True
    with Some assms have "find (\<lambda>r. reaction_emoji r = e)
        (filter (\<lambda>r. reaction_emoji r \<noteq> e) (update_first (\<lambda>r. reaction_emoji r = e)
               (\<lambda>r. r\<lparr>reaction_users := ?users, reaction_count := length ?users\<rparr>) (message_reactions m))) = Some r"
      by (simp add: removeReaction_def Let_def)
    then have "reaction_emoji r = e \<and> reaction_emoji r \<noteq> e"
      using find_Some_mem by fastforce
    then show ?thesis by simp
  next
    case False
    with Some assms show ?thesis
      by (auto simp add: removeReaction_def Let_def find_update_first)
  qed
qed

subsection \<open>The authentication middleware and the mounts\<close>

lemma authenticateToken_rejects:
  "bearer_token header = None
     \<Longrightarrow> authenticateToken env header db = Inl (unauthorized ''Access token is required'')"
  "bearer_token header = Some token \<Longrightarrow> jwt_verify env token = Jwt_JsonWebTokenError
     \<Longrightarrow> authenticateToken env header db = Inl (unauthorized ''Invalid token'')"
  "bearer_token header = Some token \<Longrightarrow> jwt_verify env token = Jwt_TokenExpiredError
     \<Longrightarrow> authenticateToken env header db = Inl (unauthorized ''Token expired'')"
  by (simp_all add: authenticateToken_def)

lemma protected_route_rejects:
  assumes "protected_route (req_route req)"
    and "authenticateToken env (req_authorization req) (state_db st) = Inl res"
  shows "auth_router env req st = (res, st)"
  using assms by (cases "req_route req") (simp_all add: protected_route_def auth_router_def)

lemma public_route_ignores_header:
  assumes "\<not> protected_route (req_route req)"
  shows "auth_router env (req\<lparr>req_authorization := header\<rparr>) st = auth_router env req st"
  using assms
  by (cases "req_route req")
    (simp_all add: protected_route_def auth_router_def split: prod.splits option.splits)

lemma needs_token_rejects:
  assumes "needs_token (api_route req)"
    and "authenticateToken (app_auth e) (api_authorization req) (state_db st) = Inl res"
  shows "app e req st = (res, st)"
proof (cases "api_route req")
  case (Api_auth a)
  with assms show ?thesis
    using protected_route_rejects
      [of "\<lparr>req_authorization = api_authorization req, req_ip = api_ip req,
            req_errors = api_errors req, req_route = a\<rparr>" "app_auth e" st res]
    by (simp add: app_def needs_token_def)
qed (use assms in \<open>simp_all add: app_def needs_token_def behind_authenticateToken_def\<close>)

lemma no_token_needed_ignores_header:
  assumes "\<not> needs_token (api_route req)"
  shows "app e (req\<lparr>api_authorization := header\<rparr>) st = app e req st"
proof (cases "api_route req")
  case (Api_auth a)
  with assms show ?thesis
    using public_route_ignores_header
      [of "\<lparr>req_authorization = api_authorization req, req_ip = api_ip req,
            req_errors = api_errors req, req_route = a\<rparr>" "app_auth e" header st]
    by (simp add: app_def needs_token_def)
qed (use assms in \<open>simp_all add: app_def needs_token_def\<close>)

lemma needs_token_iff:
  "needs_token r \<longleftrightarrow>
     \<not> (r = GET_health \<or> r = No_endpoint
        \<or> (\<exists>name email password. r = Api_auth (POST_register name email password))
        \<or> (\<exists>email password. r = Api_auth (POST_login email password))
        \<or> (\<exists>email. r = Api_auth (POST_forgot_password email))
        \<or> (\<exists>refreshToken. r = Api_auth (POST_refresh refreshToken))
        \<or> (\<exists>token password. r = Api_auth (POST_reset_password token password)))"
proof (cases r)
  case (Api_auth a)
  then show ?thesis by (cases a) (auto simp add: needs_token_def protected_route_def)
qed (auto simp add: needs_token_def)


subsection \<open>Notifications and the task routes\<close>





lemma Object_assign_nothing:
  "update_title u = None \<Longrightarrow> update_description u = None \<Longrightarrow> update_assignee u = None \<Longrightarrow>
   update_status u = None \<Longrightarrow> update_priority u = None \<Longrightarrow> update_dueDate u = None \<Longrightarrow>
   update_progress u = None \<Longrightarrow> update_actualHours u = None \<Longrightarrow> Object_assign t u = t"
  by (simp add: Object_assign_def)














subsection \<open>Requests of users outside the project\<close>










subsection \<open>The shape of the responses\<close>




































































section \<open>Project progress\<close>


text \<open>
  C2. After a task save the project's counts are those of its tasks
  (\<open>task_save_progress\<close>), but the percentage is not always \<open>round(100 * completed / total)\<close>:
  the source divides first and multiplies by 100 afterwards, in floating point. With 23 of
  40 tasks completed the quotient \<open>23/40\<close> rounds to a double below 0.575, the product to
  57.49999999999999, and \<^verbatim>\<open>Math.round\<close> gives 57, where \<open>100 * 23 / 40 = 57.5\<close> rounds to 58.
\<close>

theorem percentage_23_of_40:
  "map_option project_progress
     (findById project_id 10 (db_projects (snd (task_save 1000 task_39 forty_tasks))))
     = Some \<lparr>totalTasks = 40, completedTasks = 23, percentage = 57\<rparr>
   \<and> Math_round (100 * 23 / 40) = 58"
  by code_simp


section \<open>Changing the status of a task\<close>




section \<open>Requests of users outside the project\<close>



section \<open>Deleting a task\<close>

text \<open>
  C4. For a caller who passes the permission check, \<^verbatim>\<open>DELETE /api/tasks/:id\<close> is two store
  operations one after the other: the pull of every dependency entry that references the
  task, after which the task is still stored, and then the deletion of the task. After both,
  no task lists the deleted one as a dependency, and (ids being unique) the task is gone.
\<close>

theorem delete_task_pulls_dependencies_then_deletes:
  assumes "find_task_with_project taskId db = Inr (task, project)"
    and "\<not> lacks_permission canDeleteTasks userId project"
  shows "\<exists>res. delete_task userId taskId db = (Inr res, deleteOne_task taskId (pull_dependencies taskId db))
     \<and> res_status res = 200
     \<and> findById task_id taskId (db_tasks (pull_dependencies taskId db)) \<noteq> None
     \<and> (\<forall>t \<in> set (db_tasks (pull_dependencies taskId db)).
           \<forall>d \<in> set (task_dependencies t). dependency_task d \<noteq> taskId)
     \<and> (\<forall>t \<in> set (db_tasks (deleteOne_task taskId (pull_dependencies taskId db))).
           \<forall>d \<in> set (task_dependencies t). dependency_task d \<noteq> taskId)
     \<and> (distinct (map task_id (db_tasks db))
          \<longrightarrow> findById task_id taskId
                (db_tasks (deleteOne_task taskId (pull_dependencies taskId db))) = None)"
proof -
  from assms(1) have found: "findById task_id taskId (db_tasks db) = Some task"
    by (auto simp add: find_task_with_project_def split: option.splits)
  then have id: "task_id task = taskId" by (rule findById_key)
  let ?pull = "\<lambda>t. if list_ex (\<lambda>d. dependency_task d = taskId) (task_dependencies t)
                    then t\<lparr>task_dependencies :=
                             filter (\<lambda>d. dependency_task d \<noteq> taskId) (task_dependencies t)\<rparr>
                    else t"
  have ids: "map task_id (map ?pull docs) = map task_id docs" for docs :: "task list"
    by (induction docs) auto
  have still: "findById task_id taskId (map ?pull docs) \<noteq> None"
    if "findById task_id taskId docs \<noteq> None" for docs :: "task list"
    using that by (induction docs) (auto simp add: findById_def)
  have pulled: "\<forall>t \<in> set (db_tasks (pull_dependencies taskId db)).
           \<forall>d \<in> set (task_dependencies t). dependency_task d \<noteq> taskId"
    by (auto simp add: pull_dependencies_def list_ex_iff)
  moreover have "set (db_tasks (deleteOne_task taskId (pull_dependencies taskId db)))
                 \<subseteq> set (db_tasks (pull_dependencies taskId db))"
    by (simp add: deleteOne_task_def set_delete_doc)
  ultimately have deleted: "\<forall>t \<in> set (db_tasks (deleteOne_task taskId (pull_dependencies taskId db))).
           \<forall>d \<in> set (task_dependencies t). dependency_task d \<noteq> taskId"
    by blast
  have gone: "findById task_id taskId
                (db_tasks (deleteOne_task taskId (pull_dependencies taskId db))) = None"
    if "distinct (map task_id (db_tasks db))"
  proof -
    from that have "distinct (map task_id (map ?pull (db_tasks db)))"
      by (simp only: ids)
    then have "findById task_id taskId (delete_doc task_id taskId (map ?pull (db_tasks db))) = None"
      by (rule findById_delete_doc)
    then show ?thesis
      by (simp add: deleteOne_task_def pull_dependencies_def)
  qed
  have stays: "findById task_id taskId (db_tasks (pull_dependencies taskId db)) \<noteq> None"
    using still [of "db_tasks db"] found by (simp add: pull_dependencies_def)
  let ?res = "res_json 200 [(''success'', JBool True), (''message'', JString ''Task deleted successfully'')]"
  have run: "delete_task userId taskId db =
      (Inr ?res, deleteOne_task taskId (pull_dependencies taskId db))"
    unfolding delete_task_def assms(1) using assms(2) by (simp add: id Let_def)
  have code: "res_status ?res = 200"
    by (simp add: res_json_def)
  show ?thesis
    using run code stays pulled deleted gone by blast
qed



theorem delete_task_pulls_dependencies_then_deletes_witness:
  "find_task_with_project 100 example_db = Inr (example_task, example_project)
   \<and> \<not> lacks_permission canDeleteTasks 1 example_project
   \<and> task_dependencies dependent_task
       = [\<lparr>dependency_task = 100, dependency_type = BlockedBy\<rparr>,
          \<lparr>dependency_task = 102, dependency_type = RelatesTo\<rparr>]
   \<and> db_tasks (snd (delete_task 1 100 example_db))
       = [dependent_task\<lparr>task_dependencies := [\<lparr>dependency_task = 102, dependency_type = RelatesTo\<rparr>]\<rparr>]"
  using delete_task_pulls_dependencies_then_deletes [of 100 example_db example_task example_project 1]
  by (simp add: find_task_with_project_def findById_def example_db_def example_task_def
      dependent_task_def example_project_def empty_project_def delete_task_def find_member_def
      lacks_permission_def pull_dependencies_def deleteOne_task_def Let_def)

section \<open>The completion date of a task\<close>

text \<open>
  C8. After the pre-save hook of a save that modified the status, \<^verbatim>\<open>completedAt\<close> is set
  exactly when the status is \<^verbatim>\<open>completed\<close>: it becomes the current time when it was \<^verbatim>\<open>null\<close>,
  is kept when it was set, and is reset to \<^verbatim>\<open>null\<close> for every other status. A task save whose
  status differs from the stored one stores a document with that property.
\<close>

theorem task_pre_save_completedAt:
  "(task_completedAt (task_pre_save True now t) \<noteq> None
      \<longleftrightarrow> task_status (task_pre_save True now t) = Completed)
   \<and> task_status (task_pre_save True now t) = task_status t
   \<and> (task_status t = Completed \<and> task_completedAt t = None
        \<longrightarrow> task_completedAt (task_pre_save True now t) = Some now)
   \<and> (task_status t = Completed \<and> task_completedAt t \<noteq> None
        \<longrightarrow> task_completedAt (task_pre_save True now t) = task_completedAt t)
   \<and> (task_status t \<noteq> Completed \<longrightarrow> task_completedAt (task_pre_save True now t) = None)
   \<and> (\<forall>stored. findById task_id (task_id t) (db_tasks db) = Some stored
                 \<and> task_status stored \<noteq> task_status t
        \<longrightarrow> (\<exists>t'. findById task_id (task_id t) (db_tasks (snd (task_save now t db))) = Some t'
                  \<and> t' = fst (task_save now t db)
                  \<and> task_status t' = task_status t
                  \<and> (task_completedAt t' \<noteq> None \<longleftrightarrow> task_status t' = Completed)))"
proof -
  have hook: "(task_completedAt (task_pre_save True now t) \<noteq> None
      \<longleftrightarrow> task_status (task_pre_save True now t) = Completed)"
    "task_status (task_pre_save True now t) = task_status t"
    "task_status t = Completed \<and> task_completedAt t = None
        \<longrightarrow> task_completedAt (task_pre_save True now t) = Some now"
    "task_status t = Completed \<and> task_completedAt t \<noteq> None
        \<longrightarrow> task_completedAt (task_pre_save True now t) = task_completedAt t"
    "task_status t \<noteq> Completed \<longrightarrow> task_completedAt (task_pre_save True now t) = None"
    by (auto simp add: task_pre_save_def)
  have "fst (task_save now t db) = task_pre_save True now t"
    if "findById task_id (task_id t) (db_tasks db) = Some stored"
      "task_status stored \<noteq> task_status t" for stored
    using that by (simp add: task_save_def Let_def)
  with hook(1,2) have save: "\<forall>stored. findById task_id (task_id t) (db_tasks db) = Some stored
                 \<and> task_status stored \<noteq> task_status t
        \<longrightarrow> (\<exists>t'. findById task_id (task_id t) (db_tasks (snd (task_save now t db))) = Some t'
                  \<and> t' = fst (task_save now t db)
                  \<and> task_status t' = task_status t
                  \<and> (task_completedAt t' \<noteq> None \<longleftrightarrow> task_status t' = Completed))"
    by (auto simp add: task_save_stored task_save_fst)
  from hook save show ?thesis by blast
qed

theorem task_pre_save_completedAt_witness:
  "findById task_id 100 (db_tasks example_db) = Some example_task
   \<and> task_status example_task = Todo
   \<and> task_completedAt (fst (task_save 1000 (updateStatus Completed 2 1000 example_task) example_db))
       = Some 1000
   \<and> task_status (fst (task_save 1000 (updateStatus Completed 2 1000 example_task) example_db))
       = Completed
   \<and> task_completedAt (task_pre_save True 1000 dependent_task) = Some 3
   \<and> task_completedAt (task_pre_save True 1000 (dependent_task\<lparr>task_status := InReview\<rparr>)) = None"
  using task_pre_save_completedAt [of 1000 "updateStatus Completed 2 1000 example_task" example_db]
    task_pre_save_completedAt [of 1000 dependent_task example_db]
    task_pre_save_completedAt [of 1000 "dependent_task\<lparr>task_status := InReview\<rparr>" example_db]
  by (simp add: example_db_def example_task_def dependent_task_def findById_def updateStatus_def
      addActivity_def task_save_def task_pre_save_def Let_def)

section \<open>Reactions\<close>

text \<open>
  C9. \<^verbatim>\<open>addReaction\<close> and \<^verbatim>\<open>removeReaction\<close> keep the state in which every reaction entry has
  \<^verbatim>\<open>count\<close> equal to the number of its users, no user twice and at least one user; the entry
  \<^verbatim>\<open>removeReaction\<close> leaves for the emoji, if any, has users, and the removed user is not among
  them; and \<^verbatim>\<open>addReaction\<close> applied twice is \<^verbatim>\<open>addReaction\<close> applied once.
\<close>

theorem reactions_invariant_addReaction_idempotent:
  "(reactions_ok m \<longrightarrow> reactions_ok (addReaction e u m) \<and> reactions_ok (removeReaction e u m))
   \<and> (\<forall>r. find (\<lambda>r. reaction_emoji r = e) (message_reactions (removeReaction e u m)) = Some r
         \<longrightarrow> reaction_users r \<noteq> [] \<and> u \<notin> set (reaction_users r)
             \<and> reaction_count r = length (reaction_users r))
   \<and> addReaction e u (addReaction e u m) = addReaction e u m"
  using addReaction_ok removeReaction_ok removeReaction_first addReaction_idem by blast



theorem reactions_invariant_addReaction_idempotent_witness:
  "reactions_ok example_message
   \<and> message_reactions (addReaction ''+1'' 3 example_message)
       = [\<lparr>reaction_emoji = ''+1'', reaction_users = [2, 3], reaction_count = 2\<rparr>]
   \<and> reactions_ok (addReaction ''+1'' 3 example_message)
   \<and> addReaction ''+1'' 3 (addReaction ''+1'' 3 example_message) = addReaction ''+1'' 3 example_message
   \<and> message_reactions (removeReaction ''+1'' 2 example_message) = []
   \<and> reactions_ok (removeReaction ''+1'' 2 example_message)
   \<and> message_reactions (removeReaction ''+1'' 2 (addReaction ''+1'' 3 example_message))
       = [\<lparr>reaction_emoji = ''+1'', reaction_users = [3], reaction_count = 1\<rparr>]"
  using reactions_invariant_addReaction_idempotent [of example_message "''+1''" 3]
    reactions_invariant_addReaction_idempotent [of example_message "''+1''" 2]
  by (simp add: example_message_def reactions_ok_def reaction_ok_def addReaction_def
      removeReaction_def)

section \<open>Notification read state\<close>

text \<open>
  C10. \<^verbatim>\<open>markAsRead\<close> on a notification that is already read returns it unchanged and
  issues no write, so calling it twice is calling it once; after \<^verbatim>\<open>markAsRead\<close>,
  \<^verbatim>\<open>markAsUnread\<close> leaves \<^verbatim>\<open>isRead = false\<close> and \<^verbatim>\<open>readAt = null\<close>.
\<close>

theorem markAsRead_idempotent_markAsUnread_inverts:
  "(notification_isRead n \<longrightarrow> markAsRead now n = (n, False))
   \<and> markAsRead now' (fst (markAsRead now n)) = (fst (markAsRead now n), False)
   \<and> notification_isRead (fst (markAsRead now n))
   \<and> \<not> notification_isRead (fst (markAsUnread now' (fst (markAsRead now n))))
   \<and> notification_readAt (fst (markAsUnread now' (fst (markAsRead now n)))) = None"
  by (simp add: markAsRead_def markAsUnread_def notification_pre_save_def)

theorem markAsRead_idempotent_markAsUnread_inverts_witness:
  "notification_isRead (fst (markAsRead 5 example_notification))
   \<and> markAsRead 9 (fst (markAsRead 5 example_notification)) = (fst (markAsRead 5 example_notification), False)
   \<and> snd (markAsRead 5 example_notification)
   \<and> notification_readAt (fst (markAsRead 5 example_notification)) = Some 5
   \<and> \<not> notification_isRead (fst (markAsUnread 9 (fst (markAsRead 5 example_notification))))
   \<and> notification_readAt (fst (markAsUnread 9 (fst (markAsRead 5 example_notification)))) = None"
  using markAsRead_idempotent_markAsUnread_inverts [of "fst (markAsRead 5 example_notification)" 9 9]
    markAsRead_idempotent_markAsUnread_inverts [of example_notification 5 9]
  by (simp add: markAsRead_def example_notification_def notification_pre_save_def)

section \<open>Bearer tokens\<close>

text \<open>
  C6. A request to a route that has \<^verbatim>\<open>authenticateToken\<close> before its handler (every route of the
  user, project, task, message and notification routers, and logout, change-password, me and
  verify-email of the authentication router) is answered by that middleware whenever it
  refuses the request, with the store and the rate limiters' counters unchanged; it refuses
  with status 401 a request without a bearer token and one whose token is invalid or has
  expired. The routes without it never read the header: the health check, the 404 handler,
  and of the authentication router register, login, forgot-password, and also refresh and
  reset-password.
\<close>

theorem token_required_but_for_five_routes:
  "(needs_token (api_route req) \<longrightarrow>
      (\<forall>res. authenticateToken (app_auth e) (api_authorization req) (state_db st) = Inl res
             \<longrightarrow> app e req st = (res, st))
      \<and> (bearer_token (api_authorization req) = None
           \<longrightarrow> app e req st = (unauthorized ''Access token is required'', st))
      \<and> (\<forall>token. bearer_token (api_authorization req) = Some token
                    \<and> jwt_verify (app_auth e) token = Jwt_JsonWebTokenError
           \<longrightarrow> app e req st = (unauthorized ''Invalid token'', st))
      \<and> (\<forall>token. bearer_token (api_authorization req) = Some token
                    \<and> jwt_verify (app_auth e) token = Jwt_TokenExpiredError
           \<longrightarrow> app e req st = (unauthorized ''Token expired'', st)))
   \<and> res_status (unauthorized msg) = 401
   \<and> (\<not> needs_token (api_route req)
        \<longrightarrow> app e (req\<lparr>api_authorization := header\<rparr>) st = app e req st)
   \<and> (needs_token r \<longleftrightarrow>
        \<not> (r = GET_health \<or> r = No_endpoint
           \<or> (\<exists>name email password. r = Api_auth (POST_register name email password))
           \<or> (\<exists>email password. r = Api_auth (POST_login email password))
           \<or> (\<exists>email. r = Api_auth (POST_forgot_password email))
           \<or> (\<exists>refreshToken. r = Api_auth (POST_refresh refreshToken))
           \<or> (\<exists>token password. r = Api_auth (POST_reset_password token password))))"
proof (intro conjI impI allI)
  show "res_status (unauthorized msg) = 401"
    by (simp add: unauthorized_def res_json_def)
next
  fix res
  assume "needs_token (api_route req)"
    and "authenticateToken (app_auth e) (api_authorization req) (state_db st) = Inl res"
  then show "app e req st = (res, st)"
    by (rule needs_token_rejects)
next
  assume "needs_token (api_route req)" and "bearer_token (api_authorization req) = None"
  then show "app e req st = (unauthorized ''Access token is required'', st)"
    by (simp add: needs_token_rejects authenticateToken_rejects(1))
next
  fix token
  assume "needs_token (api_route req)"
    and "bearer_token (api_authorization req) = Some token
         \<and> jwt_verify (app_auth e) token = Jwt_JsonWebTokenError"
  then show "app e req st = (unauthorized ''Invalid token'', st)"
    by (simp add: needs_token_rejects authenticateToken_rejects(2))
next
  fix token
  assume "needs_token (api_route req)"
    and "bearer_token (api_authorization req) = Some token
         \<and> jwt_verify (app_auth e) token = Jwt_TokenExpiredError"
  then show "app e req st = (unauthorized ''Token expired'', st)"
    by (simp add: needs_token_rejects authenticateToken_rejects(3))
next
  assume "\<not> needs_token (api_route req)"
  then show "app e (req\<lparr>api_authorization := header\<rparr>) st = app e req st"
    by (rule no_token_needed_ignores_header)
next
  show "needs_token r \<longleftrightarrow>
        \<not> (r = GET_health \<or> r = No_endpoint
           \<or> (\<exists>name email password. r = Api_auth (POST_register name email password))
           \<or> (\<exists>email password. r = Api_auth (POST_login email password))
           \<or> (\<exists>email. r = Api_auth (POST_forgot_password email))
           \<or> (\<exists>refreshToken. r = Api_auth (POST_refresh refreshToken))
           \<or> (\<exists>token password. r = Api_auth (POST_reset_password token password)))"
    by (rule needs_token_iff)
qed

text \<open>
  The theorem at work: task 100 asked for without a header, a logout with the expired token, the
  project list with a token that does not verify; and a login, which the header does not
  change.
\<close>

theorem token_required_but_for_five_routes_witness:
  "needs_token (api_route (example_api_request None (Api_tasks (GET_task 100))))
   \<and> bearer_token None = None
   \<and> app example_app_env (example_api_request None (Api_tasks (GET_task 100))) example_auth_state
       = (unauthorized ''Access token is required'', example_auth_state)
   \<and> bearer_token (Some ''Bearer old'') = Some ''old''
   \<and> jwt_verify example_auth_env ''old'' = Jwt_TokenExpiredError
   \<and> app example_app_env (example_api_request (Some ''Bearer old'') (Api_auth POST_logout))
        example_auth_state
       = (unauthorized ''Token expired'', example_auth_state)
   \<and> app example_app_env (example_api_request (Some ''Bearer garbage'') (Api_projects GET_projects))
        example_auth_state
       = (unauthorized ''Invalid token'', example_auth_state)
   \<and> \<not> needs_token (Api_auth (POST_login ''ann@example.org'' ''hash''))
   \<and> app example_app_env
        (example_api_request (Some ''Bearer old'') (Api_auth (POST_login ''ann@example.org'' ''hash'')))
        example_auth_state
       = app example_app_env
           (example_api_request None (Api_auth (POST_login ''ann@example.org'' ''hash'')))
           example_auth_state"
  using token_required_but_for_five_routes
      [of "example_api_request None (Api_tasks (GET_task 100))" example_app_env example_auth_state]
    token_required_but_for_five_routes
      [of "example_api_request (Some ''Bearer old'') (Api_auth POST_logout)" example_app_env
          example_auth_state]
    token_required_but_for_five_routes
      [of "example_api_request (Some ''Bearer garbage'') (Api_projects GET_projects)"
          example_app_env example_auth_state]
    token_required_but_for_five_routes
      [of "example_api_request None (Api_auth (POST_login ''ann@example.org'' ''hash''))"
          example_app_env example_auth_state _ "Some ''Bearer old''"]
  by (simp add: example_api_request_def needs_token_def protected_route_def bearer_token_def
      example_auth_env_def example_app_env_def)

text \<open>
  Without any \<^verbatim>\<open>Authorization\<close> header, a refresh token in the body is exchanged for new tokens,
  and the reset token in the path sets a new password for user 1; the health check answers
  too. The same request to \<^verbatim>\<open>/api/auth/me\<close> is refused.
\<close>

theorem refresh_and_reset_need_no_bearer_token:
  "bearer_token (api_authorization
       (example_api_request None (Api_auth (POST_refresh (Some ''refresh-1''))))) = None
   \<and> app example_app_env (example_api_request None (Api_auth (POST_refresh (Some ''refresh-1''))))
        example_auth_state
       = (res_json 200
            [(''success'', JBool True), (''message'', JString ''Token refreshed successfully''),
             (''data'', JData)],
          example_auth_state)
   \<and> fst (app example_app_env
             (example_api_request None (Api_auth (POST_reset_password ''tok'' ''Secret12'')))
             example_auth_state)
       = res_json 200
           [(''success'', JBool True), (''message'', JString ''Password reset successful''),
            (''data'', JData)]
   \<and> map_option user_password
         (findById user_id 1
            (db_users (state_db (snd (app example_app_env
               (example_api_request None (Api_auth (POST_reset_password ''tok'' ''Secret12'')))
               example_auth_state)))))
       = Some ''Secret12''
   \<and> res_status (fst (app example_app_env (example_api_request None GET_health) example_auth_state))
       = 200
   \<and> res_status (fst (app example_app_env (example_api_request None (Api_auth GET_me))
                         example_auth_state))
       = 401"
  by code_simp


section \<open>The shape of the responses\<close>



end
